theory Spec2Isabelle
  imports Complex_Main "HOL-Library.Word" "HOL-Library.Sublist" "HOL-Library.AList"
begin

unbundle bit_operations_syntax

section \<open>Nonce engine (package services, nonce)\<close>

text \<open>
  A Go \<open>string\<close> is a byte sequence; it is modelled as \<open>string\<close> (a list of 8-bit
  characters). \<open>int64\<close> is \<open>64 word\<close>: \<open>+\<close> and \<open>*\<close> wrap around as Go's do.
\<close>

type_synonym int64 = "64 word"

record ProcessingNonce =
  Timestamp :: int64
  Random :: string
  Nonce :: string

text \<open>\<open>int64(b)\<close> for a byte \<open>b\<close>: zero extension.\<close>

definition int64_of_byte :: "char \<Rightarrow> int64" where
  "int64_of_byte b = word_of_nat (of_char b)"

text \<open>
  The loop of \<open>GetSeedForRand\<close>:
  \<^verbatim>\<open>for _, b := range []byte(n.Nonce) { hash = hash*31 + int64(b) }\<close>
\<close>

fun hash_loop :: "int64 \<Rightarrow> string \<Rightarrow> int64" where
  "hash_loop hash [] = hash"
| "hash_loop hash (b # bs) = hash_loop (hash * 31 + int64_of_byte b) bs"

definition GetSeedForRand :: "ProcessingNonce \<Rightarrow> int64" where
  "GetSeedForRand n = Timestamp n XOR hash_loop 0 (Nonce n)"

text \<open>
  The specification's wording, for comparison: the polynomial hash of base 31 of a byte
  string \<open>b\<^sub>0 \<dots> b\<^sub>k\<close> is \<open>b\<^sub>0 * 31 ^ k + \<dots> + b\<^sub>k * 31 ^ 0\<close>, in 64-bit arithmetic.
\<close>

definition spec_poly31 :: "string \<Rightarrow> int64" where
  "spec_poly31 bs = (\<Sum>i<length bs. int64_of_byte (bs ! i) * 31 ^ (length bs - 1 - i))"

definition spec_seed :: "ProcessingNonce \<Rightarrow> int64" where
  "spec_seed n = Timestamp n XOR spec_poly31 (Nonce n)"

section \<open>Files on disk (package os)\<close>

text \<open>
  The part of the operating system the program talks to. A file system maps a path to the
  bytes stored there; \<open>denied\<close> holds the paths on which opening for writing and removing
  fail with a permission error; \<open>breaks_at\<close> gives, for a path, the number of bytes
  after which a write to it breaks off (the device is full). \<open>os.Remove\<close> of a missing
  path fails with \<open>ENOENT\<close>, the error that \<open>os.IsNotExist\<close> recognises.
\<close>

datatype os_error = ENOENT | EACCES | ENOSPC

record filesystem =
  contents :: "string \<rightharpoonup> string"
  denied :: "string set"
  breaks_at :: "string \<rightharpoonup> nat"

definition os_IsNotExist :: "os_error \<Rightarrow> bool" where
  "os_IsNotExist e = (e = ENOENT)"

definition os_Stat :: "filesystem \<Rightarrow> string \<Rightarrow> os_error + int" where
  "os_Stat fs p = (case contents fs p of None \<Rightarrow> Inl ENOENT | Some d \<Rightarrow> Inr (int (length d)))"

definition os_Remove :: "filesystem \<Rightarrow> string \<Rightarrow> os_error option \<times> filesystem" where
  "os_Remove fs p =
     (case contents fs p of
        None \<Rightarrow> (Some ENOENT, fs)
      | Some d \<Rightarrow>
          if p \<in> denied fs then (Some EACCES, fs)
          else (None, fs\<lparr>contents := (contents fs)(p := None)\<rparr>))"

text \<open>
  \<open>os.WriteFile\<close> opens the file (creating it, or truncating what it held), writes and
  closes. When the file cannot be opened the disk stays as it is; when the write breaks
  off, the file is left with the bytes written so far.
\<close>

definition os_WriteFile :: "filesystem \<Rightarrow> string \<Rightarrow> string \<Rightarrow> os_error option \<times> filesystem" where
  "os_WriteFile fs p d =
     (if p \<in> denied fs then (Some EACCES, fs)
      else
        (case breaks_at fs p of
           None \<Rightarrow> (None, fs\<lparr>contents := (contents fs)(p \<mapsto> d)\<rparr>)
         | Some k \<Rightarrow>
             if k < length d
             then (Some ENOSPC, fs\<lparr>contents := (contents fs)(p \<mapsto> take k d)\<rparr>)
             else (None, fs\<lparr>contents := (contents fs)(p \<mapsto> d)\<rparr>)))"

section \<open>Ephemeral store (package storage)\<close>

text \<open>
  Instants (\<open>time.Time\<close>) and durations (\<open>time.Duration\<close>) are integers counting
  nanoseconds. The map \<open>files\<close> of the store is an association list read with
  \<open>map_of\<close>, written with \<open>AList.update\<close> and \<open>AList.delete\<close>; the order of the
  list stands for the order in which Go happens to iterate over the map.
\<close>

definition Second :: int where
  "Second = 1000000000"

definition Minute :: int where
  "Minute = 60 * Second"

record TempFile =
  ID :: string
  Path :: string
  OriginalPath :: string
  MediaType :: string
  CreatedAt :: int
  ExpiresAt :: int
  Size :: int

record TempStorage =
  baseDir :: string
  files :: "(string \<times> TempFile) list"
  ttl :: int
  cleanupTicker :: int

datatype storage_error =
  StatFailed os_error
  | FileNotFound string
  | FileExpired string

text \<open>\<open>t.After(u)\<close>\<close>

definition After :: "int \<Rightarrow> int \<Rightarrow> bool" where
  "After t u = (u < t)"

text \<open>
  \<open>NewTempStorage\<close>: a non-positive TTL becomes ten minutes; the ticker of the cleanup
  loop is created with a period of one minute. (The directory is created with
  \<open>os.MkdirAll\<close>, whose failure is only logged; \<open>time.Time.Add\<close> is plain addition
  here.)
\<close>

definition NewTempStorage :: "string \<Rightarrow> int \<Rightarrow> TempStorage" where
  "NewTempStorage dir ttl0 =
     \<lparr>baseDir = dir, files = [], ttl = (if ttl0 \<le> 0 then 10 * Minute else ttl0),
      cleanupTicker = 1 * Minute\<rparr>"

text \<open>
  \<open>Store\<close>. The identifier drawn by \<open>generateID\<close> and the reading of the clock are
  arguments. The result holds the identifier, the store after the insertion, and the
  arguments of the goroutine \<open>scheduleDeletion\<close> that is started.
\<close>

record deletion =
  del_id :: string
  del_filePath :: string
  del_originalPath :: string
  del_ttl :: int

definition Store ::
  "TempStorage \<Rightarrow> filesystem \<Rightarrow> string \<Rightarrow> int \<Rightarrow> string \<Rightarrow> string \<Rightarrow> string
   \<Rightarrow> storage_error + (string \<times> TempStorage \<times> deletion)" where
  "Store ts fs fid now filePath originalPath mediaType =
     (case os_Stat fs filePath of
        Inl err \<Rightarrow> Inl (StatFailed err)
      | Inr sz \<Rightarrow>
          let tf = \<lparr>ID = fid, Path = filePath, OriginalPath = originalPath,
                    MediaType = mediaType, CreatedAt = now, ExpiresAt = now + ttl ts,
                    Size = sz\<rparr>
          in Inr (fid, ts\<lparr>files := AList.update fid tf (files ts)\<rparr>,
                  \<lparr>del_id = fid, del_filePath = filePath, del_originalPath = originalPath,
                   del_ttl = ttl ts\<rparr>))"

text \<open>\<open>Get\<close> returns its result and the store as it leaves it.\<close>

definition Get :: "TempStorage \<Rightarrow> int \<Rightarrow> string \<Rightarrow> (storage_error + TempFile) \<times> TempStorage" where
  "Get ts now fid =
     (case map_of (files ts) fid of
        None \<Rightarrow> (Inl (FileNotFound fid), ts)
      | Some tf \<Rightarrow>
          if After now (ExpiresAt tf) then (Inl (FileExpired fid), ts)
          else (Inr tf, ts))"

text \<open>
  Removing one file the way both eviction paths do: an error is logged unless it is
  \<open>ENOENT\<close>. The result is the file system and the paths of the warnings logged.
\<close>

definition remove_tolerant :: "filesystem \<Rightarrow> string \<Rightarrow> filesystem \<times> string list" where
  "remove_tolerant fs p =
     (case os_Remove fs p of
        (None, fs') \<Rightarrow> (fs', [])
      | (Some err, fs') \<Rightarrow> (fs', if os_IsNotExist err then [] else [p]))"

text \<open>The processed file, then the original file if it is named and different.\<close>

definition remove_pair :: "filesystem \<Rightarrow> string \<Rightarrow> string \<Rightarrow> filesystem \<times> string list" where
  "remove_pair fs filePath originalPath =
     (let (fs1, w1) = remove_tolerant fs filePath
      in if originalPath \<noteq> [] \<and> originalPath \<noteq> filePath
         then (let (fs2, w2) = remove_tolerant fs1 originalPath in (fs2, w1 @ w2))
         else (fs1, w1))"

text \<open>
  \<open>scheduleDeletion\<close> once its sleep of \<open>ttl\<close> is over: the entry leaves the map, then
  the files are removed.
\<close>

definition scheduleDeletion ::
  "TempStorage \<times> filesystem \<Rightarrow> deletion \<Rightarrow> (TempStorage \<times> filesystem) \<times> string list" where
  "scheduleDeletion s d =
     (let ts' = (fst s)\<lparr>files := AList.delete (del_id d) (files (fst s))\<rparr>;
          (fs', w) = remove_pair (snd s) (del_filePath d) (del_originalPath d)
      in ((ts', fs'), w))"

text \<open>
  The loop of \<open>cleanup\<close> over the entries of the map: an expired entry is appended to
  \<open>expiredFiles\<close> and deleted from the map.
\<close>

fun cleanup_loop ::
  "int \<Rightarrow> (string \<times> TempFile) list \<Rightarrow> TempFile list \<times> (string \<times> TempFile) list
   \<Rightarrow> TempFile list \<times> (string \<times> TempFile) list" where
  "cleanup_loop now [] acc = acc"
| "cleanup_loop now ((fid, tf) # rest) (expiredFiles, fl) =
     (if After now (ExpiresAt tf)
      then cleanup_loop now rest (expiredFiles @ [tf], AList.delete fid fl)
      else cleanup_loop now rest (expiredFiles, fl))"

text \<open>The goroutine that \<open>cleanup\<close> starts to remove the files of the expired entries.\<close>

fun cleanup_files :: "filesystem \<Rightarrow> TempFile list \<Rightarrow> filesystem \<times> string list" where
  "cleanup_files fs [] = (fs, [])"
| "cleanup_files fs (tf # rest) =
     (let (fs1, w1) = remove_pair fs (Path tf) (OriginalPath tf);
          (fs2, w2) = cleanup_files fs1 rest
      in (fs2, w1 @ w2))"

definition cleanup ::
  "TempStorage \<times> filesystem \<Rightarrow> int \<Rightarrow> (TempStorage \<times> filesystem) \<times> string list" where
  "cleanup s now =
     (let (expiredFiles, fl) = cleanup_loop now (files (fst s)) ([], files (fst s));
          (fs', w) = cleanup_files (snd s) expiredFiles
      in (((fst s)\<lparr>files := fl\<rparr>, fs'), w))"

text \<open>A series of lookups, each at its own time, one after the other.\<close>

fun Get_all :: "TempStorage \<Rightarrow> (int \<times> string) list \<Rightarrow> TempStorage" where
  "Get_all ts [] = ts"
| "Get_all ts ((now, fid) # rest) = Get_all (snd (Get ts now fid)) rest"

text \<open>Whether an entry of the map is expired at \<open>now\<close>, as \<open>cleanup\<close> tests it.\<close>

definition expired_entry :: "int \<Rightarrow> string \<times> TempFile \<Rightarrow> bool" where
  "expired_entry now e = After now (ExpiresAt (snd e))"

text \<open>
  The paths that the removal of an entry's files calls \<open>os.Remove\<close> on (the processed
  file, then the original file if it is named and different), and the paths that a sweep
  at \<open>now\<close> calls it on, in the order of the calls.
\<close>

definition removal_targets :: "TempFile \<Rightarrow> string list" where
  "removal_targets tf =
     Path tf # (if OriginalPath tf \<noteq> [] \<and> OriginalPath tf \<noteq> Path tf then [OriginalPath tf] else [])"

definition sweep_targets :: "int \<Rightarrow> TempStorage \<Rightarrow> string list" where
  "sweep_targets now ts =
     concat (map (\<lambda>e. removal_targets (snd e)) (filter (expired_entry now) (files ts)))"

text \<open>
  What can happen to a store and its disk, one event after the other: a call of
  \<open>Store\<close> (with the identifier it draws and the time it reads), a sweep of
  \<open>cleanup\<close>, the end of the sleep of a scheduled deletion, a call of \<open>Get\<close>.
\<close>

datatype event =
  EStore string int string string string
  | ECleanup int
  | EDelete deletion
  | EGet int string

fun step :: "TempStorage \<times> filesystem \<Rightarrow> event \<Rightarrow> TempStorage \<times> filesystem" where
  "step s (EStore fid now filePath originalPath mediaType) =
     (case Store (fst s) (snd s) fid now filePath originalPath mediaType of
        Inl err \<Rightarrow> s
      | Inr r \<Rightarrow> (fst (snd r), snd s))"
| "step s (ECleanup now) = fst (cleanup s now)"
| "step s (EDelete d) = fst (scheduleDeletion s d)"
| "step s (EGet now fid) = (snd (Get (fst s) now fid), snd s)"



text \<open>Events among which no \<open>Store\<close> draws \<open>fid\<close> again.\<close>

fun fresh :: "string \<Rightarrow> event \<Rightarrow> bool" where
  "fresh fid (EStore i now filePath originalPath mediaType) = (i \<noteq> fid)"
| "fresh fid (ECleanup now) = True"
| "fresh fid (EDelete d) = True"
| "fresh fid (EGet now i) = True"

section \<open>Strings (packages strings and fmt)\<close>

text \<open>
  Strings are byte strings. \<open>strings.ToLower\<close> first scans its argument: when every byte
  is below \<open>utf8.RuneSelf\<close> (\<open>0x80\<close>) the string is ASCII and is lowered byte by byte,
  the letters \<open>A\<close> to \<open>Z\<close> becoming \<open>a\<close> to \<open>z\<close>; any other string is decoded
  as UTF-8 and mapped rune by rune through \<open>unicode.ToLower\<close>. The tables of package
  \<open>unicode\<close> are not modelled: the mapping of a string that is not ASCII is the
  parameter \<open>unicode_lower\<close>, which every function that lowers a string passes on.
\<close>

definition ascii_byte :: "char \<Rightarrow> bool" where
  "ascii_byte c = (\<not> digit7 c)"

definition lower_byte :: "char \<Rightarrow> char" where
  "lower_byte c =
     (case map_of (zip ''ABCDEFGHIJKLMNOPQRSTUVWXYZ'' ''abcdefghijklmnopqrstuvwxyz'') c of
        None \<Rightarrow> c
      | Some l \<Rightarrow> l)"

definition ToLower :: "(string \<Rightarrow> string) \<Rightarrow> string \<Rightarrow> string" where
  "ToLower unicode_lower s =
     (if list_all ascii_byte s then map lower_byte s else unicode_lower s)"

definition Contains :: "string \<Rightarrow> string \<Rightarrow> bool" where
  "Contains s substr = sublist substr s"

definition HasPrefix :: "string \<Rightarrow> string \<Rightarrow> bool" where
  "HasPrefix s p = prefix p s"

definition HasSuffix :: "string \<Rightarrow> string \<Rightarrow> bool" where
  "HasSuffix s p = suffix p s"

text \<open>The verb \<open>%d\<close> of \<open>fmt\<close>: decimal digits, with a minus sign below zero.\<close>

fun digits :: "nat \<Rightarrow> string" where
  "digits n =
     (if n < 10 then [''0123456789'' ! n]
      else digits (n div 10) @ [''0123456789'' ! (n mod 10)])"

declare digits.simps [simp del]

definition Itoa :: "int \<Rightarrow> string" where
  "Itoa i = (if i < 0 then CHR ''-'' # digits (nat (- i)) else digits (nat i))"

section \<open>Downloader (package services)\<close>

subsection \<open>The network, as one attempt sees it\<close>

text \<open>
  A reader is the bytes it will deliver and the error with which \<open>Read\<close> ends once they
  are delivered (\<open>io.EOF\<close> for a clean end).
\<close>

datatype io_error = EOF | ErrUnexpectedEOF | NetError string

fun io_message :: "io_error \<Rightarrow> string" where
  "io_message EOF = ''EOF''"
| "io_message ErrUnexpectedEOF = ''unexpected EOF''"
| "io_message (NetError m) = m"

record body =
  avail :: string
  ending :: io_error

text \<open>
  A response is its status, the length it declares (\<open>-1\<close> when none is declared) and
  what arrives on the connection after the header: the bytes sent and the error with which
  reading the stream ends (\<open>io.EOF\<close> when the server closes it; over HTTP/2 the
  transport's own error when the server sends more than it declared).
\<close>

record wire =
  sent :: string
  closing :: io_error

record response =
  StatusCode :: int
  ContentLength :: int
  Wire :: wire

text \<open>
  \<open>resp.Body\<close> as the client of net/http hands it over. When a length is declared the
  body delivers at most that many bytes, whatever the server sends, and a stream that
  ends cleanly before them ends the body with \<open>io.ErrUnexpectedEOF\<close>.
\<close>

definition Body :: "response \<Rightarrow> body" where
  "Body resp =
     (if 0 \<le> ContentLength resp
      then \<lparr>avail = take (nat (ContentLength resp)) (sent (Wire resp)),
            ending = (if int (length (sent (Wire resp))) < ContentLength resp \<and>
                         closing (Wire resp) = EOF
                      then ErrUnexpectedEOF else closing (Wire resp))\<rparr>
      else \<lparr>avail = sent (Wire resp), ending = closing (Wire resp)\<rparr>)"

datatype reply = RequestError string | DoError string | Response response

text \<open>
  What one attempt meets: the reply of the network, and the number that
  \<open>bufferPool.GetStats().Allocated\<close> reports at that moment (package \<open>pool\<close> is taken as
  given: \<open>GetSized\<close> is assumed to hand out a buffer of at least the size asked for).
\<close>

record attempt_env =
  Allocated :: int
  reply :: reply

text \<open>
  \<open>io.ReadFull(r, buf[:m])\<close>: the number of bytes read and the error. Fewer than \<open>m\<close>
  bytes give the reader's error, with \<open>io.EOF\<close> turned into \<open>io.ErrUnexpectedEOF\<close>
  when some bytes were read.
\<close>

definition io_ReadFull :: "body \<Rightarrow> nat \<Rightarrow> nat \<times> io_error option" where
  "io_ReadFull b m =
     (if m \<le> length (avail b) then (m, None)
      else if length (avail b) = 0 then (0, Some (ending b))
      else (length (avail b), Some (if ending b = EOF then ErrUnexpectedEOF else ending b)))"

text \<open>
  \<open>io.ReadAll(io.LimitReader(r, limit))\<close>: at most \<open>limit\<close> bytes are read (none when
  \<open>limit\<close> is not positive); \<open>io.EOF\<close> is not an error for \<open>ReadAll\<close>.
\<close>

definition io_ReadAll_Limit :: "body \<Rightarrow> int \<Rightarrow> string \<times> io_error option" where
  "io_ReadAll_Limit b limit =
     (if limit \<le> int (length (avail b)) then (take (nat limit) (avail b), None)
      else (avail b, if ending b = EOF then None else Some (ending b)))"

subsection \<open>Errors and their messages\<close>

datatype video_error = VideoTooSmall int | MissingFtyp

datatype dl_error =
  EmptyURL
  | InvalidScheme
  | CreateRequestFailed string
  | DoFailed string
  | HTTPStatus int
  | FileTooLarge int int
  | IncompleteInterrupted int int
  | IncompleteMismatch int int
  | IncompletePartial int int
  | ReadFailed io_error
  | EmptyFile
  | FileTooSmall int
  | VideoValidationFailed video_error
  | ExhaustedRetries "dl_error option"

fun video_message :: "video_error \<Rightarrow> string" where
  "video_message (VideoTooSmall n) =
     ''file too small to be valid video: '' @ Itoa n @ '' bytes''"
| "video_message MissingFtyp =
     ''invalid MP4 header: missing ftyp box (file may be corrupted)''"

text \<open>\<open>err.Error()\<close>: the text that each \<open>fmt.Errorf\<close> of the downloader builds.\<close>

fun Error :: "dl_error \<Rightarrow> string" where
  "Error EmptyURL = ''empty URL''"
| "Error InvalidScheme = ''invalid URL scheme: must be http:// or https://''"
| "Error (CreateRequestFailed m) = ''failed to create request: '' @ m"
| "Error (DoFailed m) = ''download failed: '' @ m"
| "Error (HTTPStatus c) = ''download failed: HTTP '' @ Itoa c"
| "Error (FileTooLarge n m) =
     ''file too large: '' @ Itoa n @ '' bytes (max: '' @ Itoa m @ '')''"
| "Error (IncompleteInterrupted e g) =
     ''incomplete download: expected '' @ Itoa e @ '' bytes, got '' @ Itoa g
       @ '' bytes (connection interrupted)''"
| "Error (IncompleteMismatch e g) =
     ''incomplete download: expected '' @ Itoa e @ '' bytes, got '' @ Itoa g @ '' bytes''"
| "Error (IncompletePartial e g) =
     ''incomplete download: expected '' @ Itoa e @ '' bytes, got '' @ Itoa g
       @ '' bytes (partial file)''"
| "Error (ReadFailed e) = ''read failed: '' @ io_message e"
| "Error EmptyFile = ''downloaded file is empty''"
| "Error (FileTooSmall n) =
     ''file too small: '' @ Itoa n @ '' bytes (likely corrupted or empty)''"
| "Error (VideoValidationFailed v) =
     ''video validation failed: '' @ video_message v
       @ '' (file may be corrupted or truncated)''"
| "Error (ExhaustedRetries None) = ''download failed after 3 attempts: %!w(<nil>)''"
| "Error (ExhaustedRetries (Some e)) = ''download failed after 3 attempts: '' @ Error e"

subsection \<open>The downloader\<close>

text \<open>
  \<open>maxSize\<close>, the declared length and the lengths of byte slices are \<open>int64\<close> values,
  written as integers; the one sum that can overflow, \<open>d.maxSize+1\<close>, wraps around.
\<close>

definition int64_wrap :: "int \<Rightarrow> int" where
  "int64_wrap x = (x + 9223372036854775808) mod 18446744073709551616 - 9223372036854775808"

record Downloader =
  maxSize :: int

definition NewDownloader :: "int \<Rightarrow> Downloader" where
  "NewDownloader maxSize0 =
     \<lparr>maxSize = (if maxSize0 \<le> 0 then 500 * 1024 * 1024 else maxSize0)\<rparr>"

definition retryableErrors :: "string list" where
  "retryableErrors =
     [''connection reset'', ''connection refused'', ''timeout'', ''deadline exceeded'',
      ''temporary failure'', ''EOF'', ''broken pipe'', ''incomplete download'',
      ''connection interrupted'']"

text \<open>The loop of \<open>isRetryableError\<close> over the patterns, for the lower-cased message.\<close>

definition matches_retryable :: "string \<Rightarrow> bool" where
  "matches_retryable lowered = list_ex (\<lambda>retryable. Contains lowered retryable) retryableErrors"

definition isRetryableError :: "(string \<Rightarrow> string) \<Rightarrow> dl_error option \<Rightarrow> bool" where
  "isRetryableError unicode_lower err =
     (case err of
        None \<Rightarrow> False
      | Some e \<Rightarrow> matches_retryable (ToLower unicode_lower (Error e)))"

definition isVideoURL :: "(string \<Rightarrow> string) \<Rightarrow> string \<Rightarrow> bool" where
  "isVideoURL unicode_lower url =
     (let urlLower = ToLower unicode_lower url
      in HasSuffix urlLower ''.mp4'' \<or> HasSuffix urlLower ''.avi'' \<or>
         HasSuffix urlLower ''.mov'' \<or> HasSuffix urlLower ''.mkv'' \<or>
         HasSuffix urlLower ''.webm'')"

text \<open>
  \<open>validateVideoData\<close>: the signature \<open>ftyp\<close> must start at one of the first 32
  offsets.
\<close>

definition validateVideoData :: "string \<Rightarrow> video_error option" where
  "validateVideoData data =
     (if length data < 32 then Some (VideoTooSmall (int (length data)))
      else if 12 \<le> length data then
        (if list_ex (\<lambda>i. i + 4 \<le> length data \<and> take 4 (drop i data) = ''ftyp'') [0..<32]
         then None else Some MissingFtyp)
      else None)"

text \<open>
  The part of \<open>downloadWithValidation\<close> that reads the body: through a pooled buffer
  when a length is declared and the pool's allocation covers it, through a reader limited
  to \<open>maxSize + 1\<close> bytes (in \<open>int64\<close>) otherwise. The result comes with the number
  of bytes taken from the body.
\<close>

definition read_body :: "Downloader \<Rightarrow> attempt_env \<Rightarrow> response \<Rightarrow> (dl_error + string) \<times> nat" where
  "read_body d env resp =
     (let contentLength = ContentLength resp in
      if contentLength > 0 then
        (if contentLength \<le> Allocated env then
           (case io_ReadFull (Body resp) (nat contentLength) of
              (n, Some err) \<Rightarrow>
                if err = ErrUnexpectedEOF \<or> err = EOF
                then (Inl (IncompleteInterrupted contentLength (int n)), n)
                else (Inl (ReadFailed err), n)
            | (n, None) \<Rightarrow>
                if int n \<noteq> contentLength
                then (Inl (IncompleteMismatch contentLength (int n)), n)
                else (Inr (take n (avail (Body resp))), n))
         else
           (case io_ReadAll_Limit (Body resp) (int64_wrap (maxSize d + 1)) of
              (data, Some readErr) \<Rightarrow> (Inl (ReadFailed readErr), length data)
            | (data, None) \<Rightarrow>
                if int (length data) \<noteq> contentLength
                then (Inl (IncompletePartial contentLength (int (length data))), length data)
                else if int (length data) > maxSize d
                then (Inl (FileTooLarge (int (length data)) (maxSize d)), length data)
                else (Inr data, length data)))
      else
        (case io_ReadAll_Limit (Body resp) (int64_wrap (maxSize d + 1)) of
           (data, Some readErr) \<Rightarrow> (Inl (ReadFailed readErr), length data)
         | (data, None) \<Rightarrow>
             if int (length data) > maxSize d
             then (Inl (FileTooLarge (int (length data)) (maxSize d)), length data)
             else (Inr data, length data)))"

text \<open>The checks of \<open>downloadWithValidation\<close> on the bytes read.\<close>

definition check_data ::
  "(string \<Rightarrow> string) \<Rightarrow> string \<Rightarrow> int \<Rightarrow> string \<Rightarrow> dl_error + string" where
  "check_data unicode_lower url contentLength data =
     (if length data = 0 then Inl EmptyFile
      else if length data < 100 then Inl (FileTooSmall (int (length data)))
      else if contentLength > 0 \<and> isVideoURL unicode_lower url then
        (case validateVideoData data of
           Some err \<Rightarrow> Inl (VideoValidationFailed err)
         | None \<Rightarrow> Inr data)
      else Inr data)"

definition downloadWithValidation ::
  "(string \<Rightarrow> string) \<Rightarrow> Downloader \<Rightarrow> string \<Rightarrow> int \<Rightarrow> attempt_env
   \<Rightarrow> (dl_error + string) \<times> nat" where
  "downloadWithValidation unicode_lower d url attempt env =
     (case reply env of
        RequestError m \<Rightarrow> (Inl (CreateRequestFailed m), 0)
      | DoError m \<Rightarrow> (Inl (DoFailed m), 0)
      | Response resp \<Rightarrow>
          if StatusCode resp \<noteq> 200 then (Inl (HTTPStatus (StatusCode resp)), 0)
          else if ContentLength resp > maxSize d
          then (Inl (FileTooLarge (ContentLength resp) (maxSize d)), 0)
          else
            (case read_body d env resp of
               (Inl err, n) \<Rightarrow> (Inl err, n)
             | (Inr data, n) \<Rightarrow>
                 (check_data unicode_lower url (ContentLength resp) data, n)))"

text \<open>
  The retry loop of \<open>Download\<close>. \<open>net\<close> gives what each attempt meets. The result comes
  with the number of attempts made and the durations slept between them.
\<close>

function Download_loop ::
  "(string \<Rightarrow> string) \<Rightarrow> Downloader \<Rightarrow> (int \<Rightarrow> attempt_env) \<Rightarrow> string \<Rightarrow> int
   \<Rightarrow> dl_error option \<Rightarrow> nat \<Rightarrow> int list \<Rightarrow> (dl_error + string) \<times> nat \<times> int list" where
  "Download_loop unicode_lower d net url attempt lastErr made slept =
     (if attempt \<le> 3 then
        (case fst (downloadWithValidation unicode_lower d url attempt (net attempt)) of
           Inr data \<Rightarrow> (Inr data, made + 1, slept)
         | Inl err \<Rightarrow>
             if \<not> isRetryableError unicode_lower (Some err) then (Inl err, made + 1, slept)
             else Download_loop unicode_lower d net url (attempt + 1) (Some err) (made + 1)
                    (if attempt < 3 then slept @ [attempt * Second] else slept))
      else (Inl (ExhaustedRetries lastErr), made, slept))"
  by pat_completeness auto
termination
  by (relation "measure (\<lambda>(unicode_lower, d, net, url, attempt, lastErr, made, slept).
                  nat (4 - attempt))") auto

declare Download_loop.simps [simp del]

definition Download ::
  "(string \<Rightarrow> string) \<Rightarrow> Downloader \<Rightarrow> (int \<Rightarrow> attempt_env) \<Rightarrow> string
   \<Rightarrow> (dl_error + string) \<times> nat \<times> int list" where
  "Download unicode_lower d net url =
     (if url = [] then (Inl EmptyURL, 0, [])
      else if \<not> HasPrefix url ''http://'' \<and> \<not> HasPrefix url ''https://''
      then (Inl InvalidScheme, 0, [])
      else Download_loop unicode_lower d net url 1 None 0 [])"

text \<open>The URLs that pass the checks of \<open>Download\<close> before the first attempt.\<close>

definition valid_url :: "string \<Rightarrow> bool" where
  "valid_url url = (url \<noteq> [] \<and> (HasPrefix url ''http://'' \<or> HasPrefix url ''https://''))"

section \<open>Converters (package services) as far as they touch the disk\<close>

text \<open>
  The transcoding engine is an external process: the outcome of its one run is a
  parameter, either a failure (the error of the run and what it wrote to its error stream)
  or the bytes it wrote to its output stream.
\<close>

datatype ffmpeg_run = FfmpegExit string string | FfmpegOut string

datatype mp4_error = MP4TooSmall int | MissingFtypBox | MissingMdatMoov

datatype conv_error =
  EmptyInput
  | InvalidMP4 mp4_error
  | TempInputWriteFailed os_error
  | FfmpegFailed string string
  | NoOutput
  | OutputWriteFailed os_error

fun os_message :: "os_error \<Rightarrow> string" where
  "os_message ENOENT = ''no such file or directory''"
| "os_message EACCES = ''permission denied''"
| "os_message ENOSPC = ''no space left on device''"

fun mp4_message :: "mp4_error \<Rightarrow> string" where
  "mp4_message (MP4TooSmall n) = ''file too small: '' @ Itoa n @ '' bytes''"
| "mp4_message MissingFtypBox =
     ''missing ftyp box - file may be corrupted or not a valid MP4''"
| "mp4_message MissingMdatMoov =
     ''missing mdat/moov box - file may be truncated or corrupted''"

fun conv_message :: "conv_error \<Rightarrow> string" where
  "conv_message EmptyInput = ''empty input data''"
| "conv_message (InvalidMP4 e) = ''invalid MP4 file: '' @ mp4_message e"
| "conv_message (TempInputWriteFailed e) = ''failed to write temp input: '' @ os_message e"
| "conv_message (FfmpegFailed e stderr) = ''ffmpeg error: '' @ e @ '', stderr: '' @ stderr"
| "conv_message NoOutput = ''ffmpeg produced no output''"
| "conv_message (OutputWriteFailed e) = ''failed to write output file: '' @ os_message e"

text \<open>
  The end that the three \<open>ConvertWithScriptTechniques\<close> share: run the engine, refuse an
  empty output, write the output to \<open>path\<close>.
\<close>

definition run_and_write ::
  "filesystem \<Rightarrow> ffmpeg_run \<Rightarrow> string \<Rightarrow> conv_error option \<times> filesystem" where
  "run_and_write fs ff path =
     (case ff of
        FfmpegExit e stderr \<Rightarrow> (Some (FfmpegFailed e stderr), fs)
      | FfmpegOut output \<Rightarrow>
          if length output = 0 then (Some NoOutput, fs)
          else
            (case os_WriteFile fs path output of
               (Some e, fs') \<Rightarrow> (Some (OutputWriteFailed e), fs')
             | (None, fs') \<Rightarrow> (None, fs')))"

definition Audio_ConvertWithScriptTechniques ::
  "filesystem \<Rightarrow> ffmpeg_run \<Rightarrow> string \<Rightarrow> string \<Rightarrow> string \<Rightarrow> conv_error option \<times> filesystem" where
  "Audio_ConvertWithScriptTechniques fs ff inputData outputPath inputFormat =
     (if length inputData = 0 then (Some EmptyInput, fs)
      else run_and_write fs ff outputPath)"

text \<open>\<open>ImageConverter.detectFormat\<close>, by the leading signature bytes.\<close>

definition detectFormat :: "string \<Rightarrow> string" where
  "detectFormat data =
     (if length data < 12 then ''unknown''
      else if take 8 data = [CHR 0x89, CHR 0x50, CHR 0x4E, CHR 0x47, CHR 0x0D, CHR 0x0A,
                             CHR 0x1A, CHR 0x0A] then ''png''
      else if take 2 data = [CHR 0xFF, CHR 0xD8] then ''jpeg''
      else if take 4 data = [CHR 0x52, CHR 0x49, CHR 0x46, CHR 0x46] \<and>
              take 4 (drop 8 data) = [CHR 0x57, CHR 0x45, CHR 0x42, CHR 0x50] then ''webp''
      else ''unknown'')"

text \<open>
  \<open>filepath.Ext\<close>: the suffix from the last dot of the last element of the path; the
  scan runs from the end and stops at a separator.
\<close>

fun ext_scan :: "string \<Rightarrow> string \<Rightarrow> string" where
  "ext_scan [] seen = []"
| "ext_scan (c # before) seen =
     (if c = CHR ''/'' then []
      else if c = CHR ''.'' then c # seen
      else ext_scan before (c # seen))"

definition filepath_Ext :: "string \<Rightarrow> string" where
  "filepath_Ext path = ext_scan (rev path) []"

definition TrimSuffix :: "string \<Rightarrow> string \<Rightarrow> string" where
  "TrimSuffix s suffix' =
     (if HasSuffix s suffix' then take (length s - length suffix') s else s)"

definition adjustOutputPath :: "string \<Rightarrow> string \<Rightarrow> string" where
  "adjustOutputPath path format =
     (let ext = filepath_Ext path; base = TrimSuffix path ext
      in if format = ''png'' then base @ ''.png''
         else if format = ''webp'' then base @ ''.webp''
         else base @ ''.jpg'')"

text \<open>
  The image converter writes to the path adjusted to the format it detects in the bytes.
  (The change of a few pixels before the run does not touch the disk.)
\<close>

definition Image_ConvertWithScriptTechniques ::
  "filesystem \<Rightarrow> ffmpeg_run \<Rightarrow> string \<Rightarrow> string \<Rightarrow> conv_error option \<times> filesystem" where
  "Image_ConvertWithScriptTechniques fs ff inputData outputPath =
     (if length inputData = 0 then (Some EmptyInput, fs)
      else
        (let inputFormat = detectFormat inputData;
             finalPath = adjustOutputPath outputPath inputFormat
         in run_and_write fs ff finalPath))"

text \<open>\<open>validateMP4Integrity\<close>\<close>

definition validateMP4Integrity :: "string \<Rightarrow> mp4_error option" where
  "validateMP4Integrity data =
     (if length data < 32 then Some (MP4TooSmall (int (length data)))
      else
        (let scanLimit = (if length data < 256 then length data else 256) in
         if \<not> list_ex (\<lambda>i. take 4 (drop i data) = [CHR 0x66, CHR 0x74, CHR 0x79, CHR 0x70])
                [0..<scanLimit - 8]
         then Some MissingFtypBox
         else if \<not> list_ex (\<lambda>i. i + 4 < length data \<and>
                         (take 4 (drop i data) = [CHR 0x6D, CHR 0x64, CHR 0x61, CHR 0x74] \<or>
                          take 4 (drop i data) = [CHR 0x6D, CHR 0x6F, CHR 0x6F, CHR 0x76]))
                     [0..<length data - 8]
         then Some MissingMdatMoov
         else None))"

text \<open>
  The video converter writes its input to a temporary file first and removes it when it
  returns, whatever the outcome (\<open>defer os.Remove(tempInput)\<close>).
\<close>

definition Video_ConvertWithScriptTechniques ::
  "filesystem \<Rightarrow> ffmpeg_run \<Rightarrow> string \<Rightarrow> string \<Rightarrow> conv_error option \<times> filesystem" where
  "Video_ConvertWithScriptTechniques fs ff inputData outputPath =
     (if length inputData = 0 then (Some EmptyInput, fs)
      else
        (case validateMP4Integrity inputData of
           Some e \<Rightarrow> (Some (InvalidMP4 e), fs)
         | None \<Rightarrow>
             (let tempInput = outputPath @ ''.input.mp4'' in
              case os_WriteFile fs tempInput inputData of
                (Some e, fs1) \<Rightarrow> (Some (TempInputWriteFailed e), fs1)
              | (None, fs1) \<Rightarrow>
                  (let (err, fs2) = run_and_write fs1 ff outputPath
                   in (err, snd (os_Remove fs2 tempInput))))))"

section \<open>Processing pipeline (package handlers)\<close>

definition detectMediaTypeAndFormatFromURL ::
  "(string \<Rightarrow> string) \<Rightarrow> string \<Rightarrow> string \<times> string" where
  "detectMediaTypeAndFormatFromURL unicode_lower url =
     (let urlLower = ToLower unicode_lower url in
      if HasSuffix urlLower ''.mp3'' then (''audio'', ''mp3'')
      else if HasSuffix urlLower ''.opus'' then (''audio'', ''opus'')
      else if HasSuffix urlLower ''.ogg'' then (''audio'', ''ogg'')
      else if HasSuffix urlLower ''.m4a'' then (''audio'', ''m4a'')
      else if HasSuffix urlLower ''.wav'' then (''audio'', ''wav'')
      else if HasSuffix urlLower ''.aac'' then (''audio'', ''aac'')
      else if HasSuffix urlLower ''.jpg'' \<or> HasSuffix urlLower ''.jpeg'' then (''image'', ''jpg'')
      else if HasSuffix urlLower ''.png'' then (''image'', ''png'')
      else if HasSuffix urlLower ''.webp'' then (''image'', ''webp'')
      else if HasSuffix urlLower ''.mp4'' then (''video'', ''mp4'')
      else if HasSuffix urlLower ''.avi'' then (''video'', ''avi'')
      else if HasSuffix urlLower ''.mov'' then (''video'', ''mov'')
      else if HasSuffix urlLower ''.mkv'' then (''video'', ''mkv'')
      else if HasSuffix urlLower ''.webm'' then (''video'', ''webm'')
      else ([], []))"

definition GetFileExtension :: "string \<Rightarrow> string" where
  "GetFileExtension mediaType =
     (if mediaType = ''audio'' then ''.opus''
      else if mediaType = ''image'' then ''.jpg''
      else if mediaType = ''video'' then ''.mp4''
      else ''.bin'')"

definition getExtensionForFormat :: "(string \<Rightarrow> string) \<Rightarrow> string \<Rightarrow> string" where
  "getExtensionForFormat unicode_lower format0 =
     (let format = ToLower unicode_lower format0 in
      if \<not> HasPrefix format ''.'' then ''.'' @ format else format)"

text \<open>
  \<open>filepath.Clean\<close> (with \<open>/\<close> as the separator): the path is cut into its elements;
  empty elements and \<open>.\<close> are dropped; \<open>..\<close> takes back the element before it, is
  dropped at the root, and is kept at the start of a path that is not rooted. \<open>out\<close> holds
  the elements kept so far, the last one first.
\<close>

fun split_slash :: "string \<Rightarrow> string \<Rightarrow> string list" where
  "split_slash [] elem = [rev elem]"
| "split_slash (c # cs) elem =
     (if c = CHR ''/'' then rev elem # split_slash cs [] else split_slash cs (c # elem))"

fun clean_elems :: "bool \<Rightarrow> string list \<Rightarrow> string list \<Rightarrow> string list" where
  "clean_elems rooted [] out = rev out"
| "clean_elems rooted (e # es) out =
     (if e = [] \<or> e = ''.'' then clean_elems rooted es out
      else if e = ''..'' then
        (if out \<noteq> [] \<and> hd out \<noteq> ''..'' then clean_elems rooted es (tl out)
         else if \<not> rooted then clean_elems rooted es (''..'' # out)
         else clean_elems rooted es out)
      else clean_elems rooted es (e # out))"

fun join_slash :: "string list \<Rightarrow> string" where
  "join_slash [] = []"
| "join_slash [e] = e"
| "join_slash (e # f # es) = e @ ''/'' @ join_slash (f # es)"

definition Clean :: "string \<Rightarrow> string" where
  "Clean path =
     (if path = [] then ''.''
      else
        (let rooted = (hd path = CHR ''/'');
             out = join_slash (clean_elems rooted (split_slash path []) []);
             cleaned = (if rooted then CHR ''/'' # out else out)
         in if cleaned = [] then ''.'' else cleaned))"

text \<open>
  \<open>filepath.Join\<close> of a directory and a file name: the elements from the first one that
  is not empty on are joined with the separator, and the result is cleaned.
\<close>

definition Join :: "string \<Rightarrow> string \<Rightarrow> string" where
  "Join dir name =
     (if dir \<noteq> [] then Clean (dir @ ''/'' @ name)
      else if name \<noteq> [] then Clean name
      else [])"

text \<open>
  \<open>GenerateTempPath\<close> and \<open>GenerateTempPathWithFormat\<close>; the identifier that
  \<open>generateID\<close> draws (32 hexadecimal digits) is an argument.
\<close>

definition GenerateTempPath :: "TempStorage \<Rightarrow> string \<Rightarrow> string \<Rightarrow> string" where
  "GenerateTempPath ts fid mediaType = Join (baseDir ts) (take 12 fid @ GetFileExtension mediaType)"

definition GenerateTempPathWithFormat ::
  "(string \<Rightarrow> string) \<Rightarrow> TempStorage \<Rightarrow> string \<Rightarrow> string \<Rightarrow> string \<Rightarrow> string" where
  "GenerateTempPathWithFormat unicode_lower ts fid mediaType format =
     Join (baseDir ts) (take 12 fid @ getExtensionForFormat unicode_lower format)"

record ProcessResponse =
  Success :: bool
  Message :: string
  NovaURL :: string
  MediaType_resp :: string
  FileID :: string

definition failure :: "string \<Rightarrow> ProcessResponse" where
  "failure msg = \<lparr>Success = False, Message = msg, NovaURL = [], MediaType_resp = [], FileID = []\<rparr>"

record ProcessHandler =
  downloader :: Downloader
  baseURL :: string

text \<open>
  What one request meets: the body of the request (\<open>None\<close> when it is not valid JSON,
  else the field \<open>arquivo\<close>), the network, the three identifiers drawn (for the original
  file, for the output file, for the entry of the store), the clock, and the run of the
  engine.
\<close>

record request_env =
  requestBody :: "string option"
  network :: "int \<Rightarrow> attempt_env"
  originalId :: string
  outputId :: string
  storeId :: string
  clock :: int
  ffmpeg :: ffmpeg_run

text \<open>The \<open>switch mediaType\<close> of \<open>Process\<close>; \<open>None\<close> is its default case.\<close>

definition convert ::
  "filesystem \<Rightarrow> ffmpeg_run \<Rightarrow> string \<Rightarrow> string \<Rightarrow> string \<Rightarrow> string
   \<Rightarrow> (conv_error option \<times> filesystem) option" where
  "convert fs ff mediaType inputData outputPath inputFormat =
     (if mediaType = ''audio''
      then Some (Audio_ConvertWithScriptTechniques fs ff inputData outputPath inputFormat)
      else if mediaType = ''image''
      then Some (Image_ConvertWithScriptTechniques fs ff inputData outputPath)
      else if mediaType = ''video''
      then Some (Video_ConvertWithScriptTechniques fs ff inputData outputPath)
      else None)"

text \<open>
  \<open>Process\<close> after the conversion has returned without an error: the output file is
  looked for under \<open>outputPath\<close>, then stored.
\<close>

definition verify_and_store ::
  "(string \<Rightarrow> string) \<Rightarrow> ProcessHandler \<Rightarrow> request_env \<Rightarrow> TempStorage \<Rightarrow> filesystem
   \<Rightarrow> string \<Rightarrow> string \<Rightarrow> string \<Rightarrow> string
   \<Rightarrow> (int \<times> ProcessResponse) \<times> (TempStorage \<times> filesystem)" where
  "verify_and_store unicode_lower h env ts fs mediaType inputFormat originalPath outputPath =
     (if (case os_Stat fs outputPath of Inl e \<Rightarrow> os_IsNotExist e | Inr sz \<Rightarrow> False)
      then ((500, failure ''Output file was not created''),
            (ts, snd (os_Remove fs originalPath)))
      else
        (case Store ts fs (storeId env) (clock env) outputPath originalPath mediaType of
           Inl err \<Rightarrow>
             ((500, failure ''Failed to store processed file''),
              (ts, snd (os_Remove (snd (os_Remove fs outputPath)) originalPath)))
         | Inr r \<Rightarrow>
             ((200, \<lparr>Success = True, Message = ''arquivo modificado com sucesso!'',
                     NovaURL = baseURL h @ ''/api/files/'' @ fst r
                               @ getExtensionForFormat unicode_lower inputFormat,
                     MediaType_resp = mediaType, FileID = fst r\<rparr>),
              (fst (snd r), fs))))"

definition Process ::
  "(string \<Rightarrow> string) \<Rightarrow> ProcessHandler \<Rightarrow> request_env \<Rightarrow> TempStorage \<times> filesystem
   \<Rightarrow> (int \<times> ProcessResponse) \<times> (TempStorage \<times> filesystem)" where
  "Process unicode_lower h env s =
     (case requestBody env of
        None \<Rightarrow> ((400, failure ''Invalid request body''), s)
      | Some arquivo \<Rightarrow>
          if arquivo = [] then ((400, failure ''arquivo (URL) is required''), s)
          else
            (let (mediaType, inputFormat) =
                   detectMediaTypeAndFormatFromURL unicode_lower arquivo in
             if mediaType = []
             then ((400, failure (''Could not detect media type from URL. ''
                      @ ''Supported: .mp3, .opus, .mp4, .jpg, .jpeg, .png'')), s)
             else
               (case fst (Download unicode_lower (downloader h) (network env) arquivo) of
                  Inl err \<Rightarrow> ((400, failure (''Failed to download file: '' @ Error err)), s)
                | Inr inputData \<Rightarrow>
                    (let originalPath =
                           GenerateTempPath (fst s) (originalId env) mediaType @ ''.original''
                     in case os_WriteFile (snd s) originalPath inputData of
                          (Some e, fs1) \<Rightarrow>
                            ((500, failure ''Failed to save original file''), (fst s, fs1))
                        | (None, fs1) \<Rightarrow>
                            (let outputPath =
                                   GenerateTempPathWithFormat unicode_lower (fst s)
                                     (outputId env) mediaType inputFormat
                             in case convert fs1 (ffmpeg env) mediaType inputData outputPath
                                       inputFormat of
                                  None \<Rightarrow>
                                    ((400, failure (''Unsupported media type: '' @ mediaType)),
                                     (fst s, fs1))
                                | Some (Some err, fs2) \<Rightarrow>
                                    ((500, failure (''Processing failed: '' @ conv_message err)),
                                     (fst s, snd (os_Remove fs2 originalPath)))
                                | Some (None, fs2) \<Rightarrow>
                                    verify_and_store unicode_lower h env (fst s) fs2 mediaType
                                      inputFormat originalPath outputPath)))))"

section \<open>Random parameters (packages math/rand and services)\<close>

text \<open>
  The generators of \<open>math/rand\<close> are taken as given: a record of the operations used,
  over a type \<open>'g\<close> of generator states. \<open>NewSource\<close> stands for
  \<open>rand.New(rand.NewSource(seed))\<close>; \<open>Intn\<close>, \<open>Float64\<close> and \<open>Read\<close> return
  their result and the generator after the draw. Values of type \<open>float64\<close> are modelled
  by the real numbers they approximate.
\<close>

record 'g rand_lib =
  NewSource :: "int64 \<Rightarrow> 'g"
  Intn :: "'g \<Rightarrow> int \<Rightarrow> int \<times> 'g"
  Float64 :: "'g \<Rightarrow> real \<times> 'g"
  Read :: "'g \<Rightarrow> nat \<Rightarrow> string \<times> 'g"

text \<open>
  What the process offers for nonces: the \<open>k\<close>-th generation of a nonce reads
  \<open>now_at k\<close> from the clock and \<open>crypto_at k\<close> from \<open>crypto/rand\<close> (\<open>None\<close> when
  that source fails). The state holds the number of nonces generated so far and the
  process-wide generator of \<open>math/rand\<close>, which \<open>init\<close> seeds once.
\<close>

record entropy =
  now_at :: "nat \<Rightarrow> int64"
  crypto_at :: "nat \<Rightarrow> string option"

record 'g rng_state =
  drawn :: nat
  global :: 'g

text \<open>\<open>hex.EncodeToString\<close>\<close>

definition hex_byte :: "char \<Rightarrow> string" where
  "hex_byte b =
     [''0123456789abcdef'' ! ((of_char b :: nat) div 16),
      ''0123456789abcdef'' ! ((of_char b :: nat) mod 16)]"

definition EncodeToString :: "string \<Rightarrow> string" where
  "EncodeToString bs = concat (map hex_byte bs)"

definition make_nonce :: "int64 \<Rightarrow> string \<Rightarrow> ProcessingNonce" where
  "make_nonce now randomBytes =
     \<lparr>Timestamp = now, Random = EncodeToString randomBytes,
      Nonce = Itoa (sint now) @ ''_'' @ EncodeToString randomBytes\<rparr>"

text \<open>
  \<open>GenerateNonce\<close>: when \<open>crypto/rand\<close> fails, the sixteen bytes are read from the
  process-wide generator instead.
\<close>

definition GenerateNonce ::
  "'g rand_lib \<Rightarrow> entropy \<Rightarrow> 'g rng_state \<Rightarrow> ProcessingNonce \<times> 'g rng_state" where
  "GenerateNonce lib env st =
     (let now = now_at env (drawn st) in
      case crypto_at env (drawn st) of
        Some randomBytes \<Rightarrow> (make_nonce now randomBytes, st\<lparr>drawn := drawn st + 1\<rparr>)
      | None \<Rightarrow>
          (let (randomBytes, g') = Read lib (global st) 16
           in (make_nonce now randomBytes, st\<lparr>drawn := drawn st + 1, global := g'\<rparr>)))"

text \<open>The operators \<open>%\<close> and \<open>/\<close> of Go on integers truncate towards zero.\<close>

definition go_rem :: "int \<Rightarrow> int \<Rightarrow> int" where
  "go_rem a b = sgn a * (\<bar>a\<bar> mod \<bar>b\<bar>)"

definition go_quot :: "int \<Rightarrow> int \<Rightarrow> int" where
  "go_quot a b = sgn a * sgn b * (\<bar>a\<bar> div \<bar>b\<bar>)"

subsection \<open>The operations that the pipeline calls\<close>

record audio_script_params =
  delayMs :: int
  volume :: real
  audio_uid :: string

text \<open>
  \<open>AudioConverter.ConvertWithScriptTechniques\<close>, as far as its parameters go: what
  the lines from \<open>mathrand.New\<close> to the filter compute from the nonce.
\<close>

definition audio_script_params :: "'g rand_lib \<Rightarrow> ProcessingNonce \<Rightarrow> audio_script_params" where
  "audio_script_params lib nonce =
     (let localRand = NewSource lib (GetSeedForRand nonce);
          (r1, localRand1) = Intn lib localRand 50;
          delayMs0 = 1 + r1 + go_rem (sint (Timestamp nonce)) 10;
          (f1, localRand2) = Float64 lib localRand1
      in \<lparr>delayMs = (if delayMs0 > 50 then 50 else delayMs0),
          volume = 0.99 + f1 * 0.02 + real_of_int (go_rem (sint (Timestamp nonce)) 100) / 100000,
          audio_uid = ''uid:'' @ Nonce nonce\<rparr>)"

text \<open>
  The operation itself returns before any nonce is generated when its input is empty;
  \<open>None\<close> stands for that return.
\<close>

definition Audio_script_operation ::
  "'g rand_lib \<Rightarrow> entropy \<Rightarrow> string \<Rightarrow> 'g rng_state
   \<Rightarrow> audio_script_params option \<times> 'g rng_state" where
  "Audio_script_operation lib env inputData st =
     (if length inputData = 0 then (None, st)
      else (let (nonce, st') = GenerateNonce lib env st
            in (Some (audio_script_params lib nonce), st')))"

text \<open>The crop of one or two pixels that the image and the video operation share.\<close>

definition crop_pixels :: "int \<Rightarrow> int64 \<Rightarrow> int" where
  "crop_pixels r timestamp =
     (let cropPixels = go_rem (1 + r + go_rem (sint timestamp) 3) 3
      in if cropPixels = 0 then 1 else cropPixels)"

text \<open>
  \<open>modifyImageLSBWithNonce\<close> creates a generator of its own from the seed of the nonce
  and draws \<open>Intn(2)\<close> for each of the three colour channels of up to three pixels near
  the centre of the decoded image (\<open>w\<close> by \<open>h\<close> pixels).
\<close>

fun draw_many :: "'g rand_lib \<Rightarrow> 'g \<Rightarrow> nat \<Rightarrow> int list" where
  "draw_many lib g 0 = []"
| "draw_many lib g (Suc k) = (let (r, g') = Intn lib g 2 in r # draw_many lib g' k)"

definition lsb_choices :: "'g rand_lib \<Rightarrow> ProcessingNonce \<Rightarrow> nat \<Rightarrow> nat \<Rightarrow> int list" where
  "lsb_choices lib nonce w h =
     (let localRand = NewSource lib (GetSeedForRand nonce);
          cx = w div 2; cy = h div 2;
          coords = filter (\<lambda>c. fst c < w \<and> snd c < h) [(cx, cy), (cx + 1, cy), (cx, cy + 1)]
      in draw_many lib localRand (3 * length coords))"

record image_script_params =
  lsb :: "int list"
  image_cropPixels :: int
  image_gamma :: real
  image_uid :: string

text \<open>
  \<open>ImageConverter.ConvertWithScriptTechniques\<close>, from the nonce on. \<open>decoded\<close> is the
  outcome of \<open>image.Decode\<close> on the input, the width and the height of the image when
  it decodes; the pixels are changed for JPEG and PNG input that decodes to an image that
  is not empty.
\<close>

definition image_script_params ::
  "'g rand_lib \<Rightarrow> ProcessingNonce \<Rightarrow> string \<Rightarrow> (nat \<times> nat) option \<Rightarrow> image_script_params" where
  "image_script_params lib nonce inputData decoded =
     (let localRand = NewSource lib (GetSeedForRand nonce);
          inputFormat = detectFormat inputData;
          (r1, localRand1) = Intn lib localRand 2;
          (f1, localRand2) = Float64 lib localRand1;
          gamma0 = 0.995 + f1 * 0.010
                   + real_of_int (go_rem (sint (Timestamp nonce)) 1000) / 1000000
      in \<lparr>lsb = (if inputFormat = ''jpeg'' \<or> inputFormat = ''png'' then
                   (case decoded of
                      None \<Rightarrow> []
                    | Some (w, h) \<Rightarrow> if w = 0 \<or> h = 0 then [] else lsb_choices lib nonce w h)
                 else []),
          image_cropPixels = crop_pixels r1 (Timestamp nonce),
          image_gamma = (if gamma0 > 1.005 then 1.005 else gamma0),
          image_uid = ''uid:'' @ Nonce nonce\<rparr>)"

definition Image_script_operation ::
  "'g rand_lib \<Rightarrow> entropy \<Rightarrow> string \<Rightarrow> (nat \<times> nat) option \<Rightarrow> 'g rng_state
   \<Rightarrow> image_script_params option \<times> 'g rng_state" where
  "Image_script_operation lib env inputData decoded st =
     (if length inputData = 0 then (None, st)
      else (let (nonce, st') = GenerateNonce lib env st
            in (Some (image_script_params lib nonce inputData decoded), st')))"

record video_script_params =
  video_cropPixels :: int
  video_gamma :: real
  boxX :: int
  boxY :: int
  video_uid :: string

text \<open>\<open>VideoConverter.ConvertWithScriptTechniques\<close>, from the nonce on.\<close>

definition video_script_params :: "'g rand_lib \<Rightarrow> ProcessingNonce \<Rightarrow> video_script_params" where
  "video_script_params lib nonce =
     (let localRand = NewSource lib (GetSeedForRand nonce);
          (r1, localRand1) = Intn lib localRand 2;
          (f1, localRand2) = Float64 lib localRand1;
          gamma0 = 0.998 + f1 * 0.004
                   + real_of_int (go_rem (sint (Timestamp nonce)) 1000) / 1000000
      in \<lparr>video_cropPixels = crop_pixels r1 (Timestamp nonce),
          video_gamma = (if gamma0 > 1.002 then 1.002 else gamma0),
          boxX = go_rem (sint (Timestamp nonce)) 2,
          boxY = go_rem (go_quot (sint (Timestamp nonce)) 10) 2,
          video_uid = ''uid:'' @ Nonce nonce\<rparr>)"

text \<open>
  The video operation returns before any nonce is generated when its input is empty, is
  not a sound MP4 file, or cannot be written to the temporary file.
\<close>

definition Video_script_operation ::
  "'g rand_lib \<Rightarrow> entropy \<Rightarrow> filesystem \<Rightarrow> string \<Rightarrow> string \<Rightarrow> 'g rng_state
   \<Rightarrow> video_script_params option \<times> 'g rng_state" where
  "Video_script_operation lib env fs inputData outputPath st =
     (if length inputData = 0 then (None, st)
      else
        (case validateMP4Integrity inputData of
           Some e \<Rightarrow> (None, st)
         | None \<Rightarrow>
             (case os_WriteFile fs (outputPath @ ''.input.mp4'') inputData of
                (Some e, fs1) \<Rightarrow> (None, st)
              | (None, fs1) \<Rightarrow>
                  (let (nonce, st') = GenerateNonce lib env st
                   in (Some (video_script_params lib nonce), st')))))"

subsection \<open>The operation by level of the audio converter\<close>

record audioParams =
  bitrate :: string
  compression :: int
  silencePadding :: int
  pitchShift :: real
  addNoise :: bool
  noiseLevel :: real

text \<open>
  \<open>AudioConverter.getRandomizedParams\<close>, which \<open>AudioConverter.Convert\<close> calls: every
  draw is taken from the process-wide generator (\<open>mathrand.Intn\<close>).
\<close>

definition getRandomizedParams :: "'g rand_lib \<Rightarrow> string \<Rightarrow> 'g \<Rightarrow> audioParams \<times> 'g" where
  "getRandomizedParams lib level g =
     (let params = \<lparr>bitrate = ''72k'', compression = 10, silencePadding = 0, pitchShift = 0,
                     addNoise = False, noiseLevel = 0\<rparr>
      in if level = ''basic'' then
           (let (r1, g1) = Intn lib g 5; (r2, g2) = Intn lib g1 3; (r3, g3) = Intn lib g2 3
            in (params\<lparr>bitrate := Itoa (70 + r1) @ ''k'', compression := 8 + r2,
                        silencePadding := 1 + r3\<rparr>, g3))
         else if level = ''moderate'' then
           (let (r1, g1) = Intn lib g 5; (r2, g2) = Intn lib g1 3; (r3, g3) = Intn lib g2 3;
                (r4, g4) = Intn lib g3 20
            in (params\<lparr>bitrate := Itoa (70 + r1) @ ''k'', compression := 8 + r2,
                        silencePadding := 1 + r3,
                        pitchShift := 1.0 + real_of_int (r4 - 10) / 10000\<rparr>, g4))
         else if level = ''paranoid'' then
           (let (r1, g1) = Intn lib g 9; (r2, g2) = Intn lib g1 4; (r3, g3) = Intn lib g2 5;
                (r4, g4) = Intn lib g3 40; (r5, g5) = Intn lib g4 10
            in (params\<lparr>bitrate := Itoa (68 + r1) @ ''k'', compression := 7 + r2,
                        silencePadding := 1 + r3,
                        pitchShift := 1.0 + real_of_int (r4 - 20) / 10000,
                        addNoise := True,
                        noiseLevel := 0.0005 + real_of_int r5 / 100000\<rparr>, g5))
         else (params\<lparr>bitrate := ''72k'', compression := 10\<rparr>, g))"

text \<open>
  \<open>AudioConverter.Convert\<close>, as far as its parameters go: it returns on an empty input
  (\<open>None\<close>); otherwise the parameters are drawn, and no nonce is generated.
\<close>

definition Audio_level_operation ::
  "'g rand_lib \<Rightarrow> string \<Rightarrow> string \<Rightarrow> 'g rng_state \<Rightarrow> audioParams option \<times> 'g rng_state" where
  "Audio_level_operation lib inputData level st =
     (if length inputData = 0 then (None, st)
      else (let (params, g') = getRandomizedParams lib level (global st)
            in (Some params, st\<lparr>global := g'\<rparr>)))"

section \<open>Example data\<close>

text \<open>A disk, entries and a store used to instantiate the theorems below.\<close>

definition ex_fs :: filesystem where
  "ex_fs = \<lparr>contents = [''/t/a.jpg'' \<mapsto> ''xyz'', ''/t/a.orig'' \<mapsto> ''xy'', ''/t/b.jpg'' \<mapsto> ''b''],
            denied = {}, breaks_at = Map.empty\<rparr>"

text \<open>The same disk, on which the original file of the first entry cannot be removed.\<close>

definition ex_locked_fs :: filesystem where
  "ex_locked_fs = ex_fs\<lparr>denied := {''/t/a.orig''}\<rparr>"

definition ex_tf :: "string \<Rightarrow> string \<Rightarrow> string \<Rightarrow> int \<Rightarrow> int \<Rightarrow> int \<Rightarrow> TempFile" where
  "ex_tf fid p q now life sz =
     \<lparr>ID = fid, Path = p, OriginalPath = q, MediaType = ''image'', CreatedAt = now,
      ExpiresAt = now + life, Size = sz\<rparr>"

definition ex_store :: TempStorage where
  "ex_store =
     \<lparr>baseDir = ''/t'',
      files = [(''a1'', ex_tf ''a1'' ''/t/a.jpg'' ''/t/a.orig'' 5 20 3),
               (''b2'', ex_tf ''b2'' ''/t/b.jpg'' [] 40 20 1)],
      ttl = 20, cleanupTicker = 60000000000\<rparr>"



definition ex_empty_fs :: filesystem where
  "ex_empty_fs = \<lparr>contents = Map.empty, denied = {}, breaks_at = Map.empty\<rparr>"

text \<open>
  Responses: 200 bytes declared and a stream that is closed after 150 bytes (with a pool
  that has allocated nothing, and with a pool that covers the length); 2000 bytes declared
  and sent.
\<close>

definition ex_short_env :: attempt_env where
  "ex_short_env =
     \<lparr>Allocated = 0,
      reply = Response \<lparr>StatusCode = 200, ContentLength = 200,
                         Wire = \<lparr>sent = replicate 150 (CHR ''x''), closing = EOF\<rparr>\<rparr>\<rparr>"




definition ex_jpeg :: string where
  "ex_jpeg = CHR 0xFF # CHR 0xD8 # replicate 98 (CHR ''x'')"

text \<open>A short byte string that passes \<open>validateMP4Integrity\<close>.\<close>

definition ex_mp4 :: string where
  "ex_mp4 = replicate 4 (CHR 0x00) @ ''ftypisom'' @ replicate 4 (CHR 0x00) @ ''moov''
              @ replicate 16 (CHR ''x'')"

definition ex_handler :: ProcessHandler where
  "ex_handler = \<lparr>downloader = NewDownloader 1000, baseURL = ''http://localhost:4000''\<rparr>"

definition ex_request :: request_env where
  "ex_request =
     \<lparr>requestBody = Some ''http://h/a.png'',
      network = (\<lambda>attempt. \<lparr>Allocated = 0,
                  reply = Response \<lparr>StatusCode = 200, ContentLength = 100,
                                     Wire = \<lparr>sent = ex_jpeg, closing = EOF\<rparr>\<rparr>\<rparr>),
      originalId = ''aaaaaaaaaaaa0000'', outputId = ''bbbbbbbbbbbb0000'', storeId = ''cccc'',
      clock = 5, ffmpeg = FfmpegOut ''JPEG''\<rparr>"

text \<open>A stand-in for the generators of \<open>math/rand\<close>: the state counts the draws.\<close>

definition ex_lib :: "nat rand_lib" where
  "ex_lib =
     \<lparr>NewSource = unat,
      Intn = (\<lambda>g n. (int g mod n, Suc g)),
      Float64 = (\<lambda>g. (0, Suc g)),
      Read = (\<lambda>g k. (replicate k (CHR ''x''), Suc g))\<rparr>"

definition ex_entropy :: entropy where
  "ex_entropy =
     \<lparr>now_at = (\<lambda>k. 1700000000000000123), crypto_at = (\<lambda>k. Some (replicate 16 (CHR 0x01)))\<rparr>"

section \<open>Properties of the nonce engine\<close>

lemma spec_poly31_Cons:
  "spec_poly31 (b # bs) = int64_of_byte b * 31 ^ length bs + spec_poly31 bs"
  by (simp add: spec_poly31_def sum.lessThan_Suc_shift del: sum.lessThan_Suc)

lemma hash_loop_poly: "hash_loop h bs = h * 31 ^ length bs + spec_poly31 bs"
proof (induction bs arbitrary: h)
  case Nil
  show ?case by (simp add: spec_poly31_def)
next
  case (Cons b bs)
  show ?case
    by (simp add: Cons.IH spec_poly31_Cons algebra_simps)
qed

text \<open>
  C7. The seed is a function of the nonce alone: for every nonce it is the timestamp
  combined by exclusive-or with the base-31 polynomial hash of the nonce string, computed
  in wrapping 64-bit arithmetic. Being a function of its argument, equal nonces give equal
  seeds.
\<close>

theorem GetSeedForRand_is_spec_seed:
  "GetSeedForRand n = spec_seed n"
  by (simp add: GetSeedForRand_def spec_seed_def hash_loop_poly)

section \<open>Properties of the ephemeral store\<close>

subsection \<open>Removing files\<close>

lemma remove_tolerant_absent:
  "contents fs p = None \<Longrightarrow> remove_tolerant fs p = (fs, [])"
  by (simp add: remove_tolerant_def os_Remove_def os_IsNotExist_def)

lemma remove_tolerant_denied [simp]:
  "denied (fst (remove_tolerant fs p)) = denied fs"
  by (simp add: remove_tolerant_def os_Remove_def split: option.splits)

lemma remove_tolerant_contents:
  "contents (fst (remove_tolerant fs p)) q =
     (if q = p \<and> p \<notin> denied fs then None else contents fs q)"
  by (auto simp add: remove_tolerant_def os_Remove_def split: option.splits)

lemma remove_tolerant_warnings:
  "snd (remove_tolerant fs p) = (if contents fs p \<noteq> None \<and> p \<in> denied fs then [p] else [])"
  by (auto simp add: remove_tolerant_def os_Remove_def os_IsNotExist_def split: option.splits)

lemma remove_pair_absent:
  "contents fs p = None \<Longrightarrow> contents fs q = None \<Longrightarrow> remove_pair fs p q = (fs, [])"
  by (simp add: remove_pair_def remove_tolerant_absent)


lemma remove_pair_denied [simp]:
  "denied (fst (remove_pair fs p q)) = denied fs"
  by (simp add: remove_pair_def split_beta)

lemma remove_pair_contents:
  "contents (fst (remove_pair fs p q)) r =
     (if r = p \<and> p \<notin> denied fs then None
      else if r = q \<and> q \<noteq> [] \<and> q \<noteq> p \<and> q \<notin> denied fs then None
      else contents fs r)"
  by (auto simp add: remove_pair_def split_beta remove_tolerant_contents)


lemma cleanup_loop_fst:
  "fst (cleanup_loop now es (ex, fl)) = ex @ map snd (filter (expired_entry now) es)"
  by (induction es arbitrary: ex fl) (auto simp: expired_entry_def)

lemma cleanup_loop_snd:
  "snd (cleanup_loop now es (ex, fl)) =
     filter (\<lambda>e. fst e \<notin> fst ` set (filter (expired_entry now) es)) fl"
proof (induction es arbitrary: ex fl)
  case Nil
  show ?case by simp
next
  case (Cons e es)
  obtain k tf where e: "e = (k, tf)" by (cases e)
  show ?case
    by (auto simp: e Cons.IH expired_entry_def AList.delete_eq intro!: filter_cong)
qed

lemma cleanup_loop_files:
  assumes "distinct (map fst fl)"
  shows "snd (cleanup_loop now fl ([], fl)) = filter (\<lambda>e. \<not> expired_entry now e) fl"
proof -
  have "\<And>e. e \<in> set fl \<Longrightarrow>
     (fst e \<in> fst ` set (filter (expired_entry now) fl)) = expired_entry now e"
  proof -
    fix e assume e: "e \<in> set fl"
    show "(fst e \<in> fst ` set (filter (expired_entry now) fl)) = expired_entry now e"
    proof
      assume "fst e \<in> fst ` set (filter (expired_entry now) fl)"
      then obtain e' where e': "e' \<in> set fl" "expired_entry now e'" "fst e' = fst e"
        by auto
      from assms e e' have "e' = e"
        by (metis eq_key_imp_eq_value prod.collapse)
      with e' show "expired_entry now e" by simp
    next
      assume "expired_entry now e"
      with e show "fst e \<in> fst ` set (filter (expired_entry now) fl)" by auto
    qed
  qed
  then show ?thesis
    by (simp add: cleanup_loop_snd cong: filter_cong)
qed

lemma cleanup_files_denied [simp]:
  "denied (fst (cleanup_files fs tfs)) = denied fs"
  by (induction tfs arbitrary: fs) (simp_all add: split_beta)



lemma remove_pair_targets_contents:
  "contents (fst (remove_pair fs (Path tf) (OriginalPath tf))) r =
     (if r \<in> set (removal_targets tf) \<and> r \<notin> denied fs then None else contents fs r)"
  by (auto simp add: remove_pair_contents removal_targets_def)

lemma remove_pair_targets_warnings:
  "set (snd (remove_pair fs (Path tf) (OriginalPath tf))) =
     {r \<in> set (removal_targets tf). contents fs r \<noteq> None \<and> r \<in> denied fs}"
  by (auto simp add: remove_pair_def split_beta remove_tolerant_warnings
      remove_tolerant_contents removal_targets_def split: if_splits)


text \<open>
  The files that a series of removals leaves: a path it calls \<open>os.Remove\<close> on is gone
  unless the removal is refused, every other path is as before. It logs the paths that
  exist and whose removal is refused, and no other.
\<close>

lemma cleanup_files_contents:
  "contents (fst (cleanup_files fs tfs)) r =
     (if r \<in> set (concat (map removal_targets tfs)) \<and> r \<notin> denied fs then None
      else contents fs r)"
proof (induction tfs arbitrary: fs)
  case Nil
  show ?case by simp
next
  case (Cons tf tfs)
  show ?case
    using Cons.IH [of "fst (remove_pair fs (Path tf) (OriginalPath tf))"]
    by (simp add: split_beta remove_pair_targets_contents)
qed

lemma cleanup_files_warnings_set:
  "set (snd (cleanup_files fs tfs)) =
     {r \<in> set (concat (map removal_targets tfs)). contents fs r \<noteq> None \<and> r \<in> denied fs}"
proof (induction tfs arbitrary: fs)
  case Nil
  show ?case by simp
next
  case (Cons tf tfs)
  let ?fs1 = "fst (remove_pair fs (Path tf) (OriginalPath tf))"
  have keep: "\<And>r. r \<in> denied fs \<Longrightarrow> contents ?fs1 r = contents fs r"
    by (simp add: remove_pair_targets_contents)
  have rest: "set (snd (cleanup_files ?fs1 tfs)) =
     {r \<in> set (concat (map removal_targets tfs)). contents fs r \<noteq> None \<and> r \<in> denied fs}"
    using Cons.IH [of ?fs1] keep by auto
  show ?case
    by (auto simp add: split_beta rest remove_pair_targets_warnings)
qed


lemma sweep_targets_expired:
  "sweep_targets now ts =
     concat (map removal_targets (map snd (filter (expired_entry now) (files ts))))"
  by (simp add: sweep_targets_def comp_def)

lemma map_of_filter_distinct_keys:
  "distinct (map fst al) \<Longrightarrow>
   map_of (filter P al) k =
     (case map_of al k of None \<Rightarrow> None | Some v \<Rightarrow> if P (k, v) then Some v else None)"
proof (induction al)
  case Nil
  show ?case by simp
next
  case (Cons e al)
  obtain k' v' where e: "e = (k', v')" by (cases e)
  from Cons.prems have nk: "k' \<notin> fst ` set al" and d: "distinct (map fst al)"
    by (simp_all add: e)
  from nk have none: "map_of al k' = None"
    by (simp add: map_of_eq_None_iff)
  show ?case
    using Cons.IH [OF d] none by (auto simp add: e split: option.splits)
qed

lemma cleanup_files_eq:
  "distinct (map fst (files ts)) \<Longrightarrow>
   files (fst (fst (cleanup (ts, fs) now))) = filter (\<lambda>e. \<not> expired_entry now e) (files ts)"
  using cleanup_loop_files [of "files ts" now]
  by (simp add: cleanup_def split_beta)

lemma cleanup_disk:
  "snd (fst (cleanup (ts, fs) now)) =
     fst (cleanup_files fs (map snd (filter (expired_entry now) (files ts))))"
  by (simp add: cleanup_def split_beta cleanup_loop_fst)

lemma cleanup_warnings:
  "snd (cleanup (ts, fs) now) =
     snd (cleanup_files fs (map snd (filter (expired_entry now) (files ts))))"
  by (simp add: cleanup_def split_beta cleanup_loop_fst)

lemma cleanup_other_fields:
  "baseDir (fst (fst (cleanup (ts, fs) now))) = baseDir ts \<and>
   ttl (fst (fst (cleanup (ts, fs) now))) = ttl ts \<and>
   cleanupTicker (fst (fst (cleanup (ts, fs) now))) = cleanupTicker ts"
  by (simp add: cleanup_def split_beta)

subsection \<open>Well-formed maps\<close>

lemma Store_files:
  "Store ts fs fid now p q m = Inr r \<Longrightarrow>
   fst r = fid \<and>
   files (fst (snd r)) =
     AList.update fid \<lparr>ID = fid, Path = p, OriginalPath = q, MediaType = m, CreatedAt = now,
       ExpiresAt = now + ttl ts, Size = int (length (the (contents fs p)))\<rparr> (files ts) \<and>
   ttl (fst (snd r)) = ttl ts \<and> contents fs p \<noteq> None \<and>
   snd (snd r) = \<lparr>del_id = fid, del_filePath = p, del_originalPath = q, del_ttl = ttl ts\<rparr>"
  by (auto simp add: Store_def os_Stat_def Let_def split: option.splits)

lemma Get_state [simp]: "snd (Get ts now fid) = ts"
  by (simp add: Get_def split: option.splits)


lemma step_ttl: "ttl (fst (step s e)) = ttl (fst s)"
proof (cases e)
  case (EStore fid now p q m)
  show ?thesis
  proof (cases "Store (fst s) (snd s) fid now p q m")
    case (Inl err)
    with EStore show ?thesis by simp
  next
    case (Inr r)
    from Store_files [OF Inr] EStore Inr show ?thesis by simp
  qed
next
  case (ECleanup now)
  with cleanup_other_fields [of "fst s" "snd s" now] show ?thesis by simp
next
  case (EDelete dl)
  then show ?thesis by (simp add: scheduleDeletion_def split_beta)
next
  case (EGet now fid)
  then show ?thesis by simp
qed





subsection \<open>Second runs\<close>




lemma scheduleDeletion_absent:
  "contents fs (del_filePath d) = None \<Longrightarrow> contents fs (del_originalPath d) = None \<Longrightarrow>
   scheduleDeletion (ts, fs) d = ((ts\<lparr>files := AList.delete (del_id d) (files ts)\<rparr>, fs), [])"
  by (simp add: scheduleDeletion_def remove_pair_absent)







subsection \<open>Lookups, expiry and eviction\<close>

lemma NewTempStorage_ttl_pos: "0 < ttl (NewTempStorage dir ttl0)"
  by (simp add: NewTempStorage_def Minute_def Second_def)




text \<open>
  C10. \<open>Get\<close> is read-only: whatever the identifier (present, absent or expired) and
  the time, the store after the lookup is the store before it, and so is the store after
  any series of lookups. An expired entry therefore stays in the map, with its expiry
  time unchanged, until a scheduled deletion or a sweep removes it.
\<close>

theorem Get_read_only:
  "snd (Get ts now fid) = ts \<and> Get_all ts qs = ts"
proof -
  have "Get_all ts qs = ts"
    by (induction qs arbitrary: ts) auto
  then show ?thesis by simp
qed

text \<open>
  C9, as stated, fails: a store constructed with a TTL of thirty seconds has a sweep
  interval of one minute, which is neither shorter than the TTL nor a tenth of it.
\<close>

theorem sweep_interval_counterexample:
  "\<not> cleanupTicker (NewTempStorage ''/t'' (30 * Second)) < ttl (NewTempStorage ''/t'' (30 * Second)) \<and>
   cleanupTicker (NewTempStorage ''/t'' (30 * Second)) \<noteq> ttl (NewTempStorage ''/t'' (30 * Second)) div 10"
  by (simp add: NewTempStorage_def Minute_def Second_def)

text \<open>
  C9, amended. The ticker of the sweep has a period of one minute whatever the TTL; it is
  shorter than the TTL exactly when the TTL given is non-positive (and so replaced by ten
  minutes) or longer than one minute, and it is a tenth of the default TTL. A sweep at
  \<open>now\<close> keeps exactly the entries that \<open>now\<close> is not after the expiry of and takes
  every other entry out of the map. On the disk, every path is as before except the
  processed file and the original file (when named and different) of the entries taken
  out: such a file is gone unless the disk refuses the removal. The sweep logs exactly the
  removals refused for a file that exists; a file that is missing already is passed over
  in silence.
\<close>

theorem sweep_fixed_interval:
  assumes wf: "distinct (map fst (files ts))"
  shows "cleanupTicker (NewTempStorage dir ttl0) = 1 * Minute \<and>
         (cleanupTicker (NewTempStorage dir ttl0) < ttl (NewTempStorage dir ttl0))
           = (ttl0 \<le> 0 \<or> Minute < ttl0) \<and>
         10 * cleanupTicker (NewTempStorage dir 0) = ttl (NewTempStorage dir 0) \<and>
         files (fst (fst (cleanup (ts, fs) now)))
           = filter (\<lambda>e. \<not> expired_entry now e) (files ts) \<and>
         map_of (files (fst (fst (cleanup (ts, fs) now)))) k
           = (case map_of (files ts) k of
                None \<Rightarrow> None
              | Some tf \<Rightarrow> if After now (ExpiresAt tf) then None else Some tf) \<and>
         contents (snd (fst (cleanup (ts, fs) now))) r
           = (if r \<in> set (sweep_targets now ts) \<and> r \<notin> denied fs then None
              else contents fs r) \<and>
         set (snd (cleanup (ts, fs) now))
           = {r \<in> set (sweep_targets now ts). contents fs r \<noteq> None \<and> r \<in> denied fs}"
proof -
  have t: "cleanupTicker (NewTempStorage dir ttl0) = 1 * Minute"
    by (simp add: NewTempStorage_def)
  have l: "(cleanupTicker (NewTempStorage dir ttl0) < ttl (NewTempStorage dir ttl0))
           = (ttl0 \<le> 0 \<or> Minute < ttl0)"
    by (simp add: NewTempStorage_def Minute_def Second_def)
  have tenth: "10 * cleanupTicker (NewTempStorage dir 0) = ttl (NewTempStorage dir 0)"
    by (simp add: NewTempStorage_def)
  have f: "files (fst (fst (cleanup (ts, fs) now)))
           = filter (\<lambda>e. \<not> expired_entry now e) (files ts)"
    using wf by (rule cleanup_files_eq)
  have m: "map_of (files (fst (fst (cleanup (ts, fs) now)))) k
           = (case map_of (files ts) k of
                None \<Rightarrow> None
              | Some tf \<Rightarrow> if After now (ExpiresAt tf) then None else Some tf)"
    using wf by (simp add: f map_of_filter_distinct_keys expired_entry_def split: option.splits)
  have c: "contents (snd (fst (cleanup (ts, fs) now))) r
           = (if r \<in> set (sweep_targets now ts) \<and> r \<notin> denied fs then None
              else contents fs r)"
    by (simp only: cleanup_disk cleanup_files_contents sweep_targets_expired)
  have w: "set (snd (cleanup (ts, fs) now))
           = {r \<in> set (sweep_targets now ts). contents fs r \<noteq> None \<and> r \<in> denied fs}"
    by (simp only: cleanup_warnings cleanup_files_warnings_set sweep_targets_expired)
  from t l tenth f m c w show ?thesis by simp
qed

theorem sweep_fixed_interval_witness:
  "cleanupTicker (NewTempStorage ''/t'' 20) = 1 * Minute \<and>
   \<not> cleanupTicker (NewTempStorage ''/t'' 20) < ttl (NewTempStorage ''/t'' 20) \<and>
   files (fst (fst (cleanup (ex_store, ex_locked_fs) 30)))
     = [(''b2'', ex_tf ''b2'' ''/t/b.jpg'' [] 40 20 1)] \<and>
   map_of (files (fst (fst (cleanup (ex_store, ex_locked_fs) 30)))) ''a1'' = None \<and>
   contents (snd (fst (cleanup (ex_store, ex_locked_fs) 30))) ''/t/a.jpg'' = None \<and>
   contents (snd (fst (cleanup (ex_store, ex_locked_fs) 30))) ''/t/a.orig'' = Some ''xy'' \<and>
   contents (snd (fst (cleanup (ex_store, ex_locked_fs) 30))) ''/t/b.jpg'' = Some ''b'' \<and>
   set (snd (cleanup (ex_store, ex_locked_fs) 30)) = {''/t/a.orig''} \<and>
   set (snd (cleanup (ex_store, ex_empty_fs) 30)) = {} \<and>
   files (fst (fst (cleanup (ex_store, ex_fs) 5))) = files ex_store \<and>
   contents (snd (fst (cleanup (ex_store, ex_fs) 5))) ''/t/a.jpg'' = Some ''xyz'' \<and>
   set (snd (cleanup (ex_store, ex_fs) 5)) = {}"
proof -
  have wf: "distinct (map fst (files ex_store))"
    by (simp add: ex_store_def)
  have fl: "filter (\<lambda>e. \<not> expired_entry 30 e) (files ex_store)
      = [(''b2'', ex_tf ''b2'' ''/t/b.jpg'' [] 40 20 1)]"
    by (simp add: ex_store_def expired_entry_def After_def ex_tf_def)
  have fl5: "filter (\<lambda>e. \<not> expired_entry 5 e) (files ex_store) = files ex_store"
    by (simp add: ex_store_def expired_entry_def After_def ex_tf_def)
  have tg: "sweep_targets 30 ex_store = [''/t/a.jpg'', ''/t/a.orig'']"
    by (simp add: sweep_targets_def removal_targets_def ex_store_def expired_entry_def
        After_def ex_tf_def)
  have tg5: "sweep_targets 5 ex_store = []"
    by (simp add: sweep_targets_def removal_targets_def ex_store_def expired_entry_def
        After_def ex_tf_def)
  have a1: "map_of (files ex_store) ''a1'' = Some (ex_tf ''a1'' ''/t/a.jpg'' ''/t/a.orig'' 5 20 3)"
    by (simp add: ex_store_def)
  have ex: "After 30 (ExpiresAt (ex_tf ''a1'' ''/t/a.jpg'' ''/t/a.orig'' 5 20 3))"
    by (simp add: After_def ex_tf_def)
  have m: "\<not> Minute < 20"
    by (simp add: Minute_def Second_def)
  have lk: "denied ex_locked_fs = {''/t/a.orig''}"
      "contents ex_locked_fs ''/t/a.jpg'' = Some ''xyz''"
      "contents ex_locked_fs ''/t/a.orig'' = Some ''xy''"
      "contents ex_locked_fs ''/t/b.jpg'' = Some ''b''"
    by (simp_all add: ex_locked_fs_def ex_fs_def)
  have em: "contents ex_empty_fs = Map.empty"
    by (simp add: ex_empty_fs_def)
  have c5: "contents ex_fs ''/t/a.jpg'' = Some ''xyz''"
    by (simp add: ex_fs_def)
  have flt: "filter (\<lambda>r. contents ex_locked_fs r \<noteq> None \<and> r \<in> denied ex_locked_fs)
               [''/t/a.jpg'', ''/t/a.orig''] = [''/t/a.orig'']"
    by (simp add: lk)
  note th = sweep_fixed_interval [OF wf, of "''/t''" 20 ex_locked_fs 30 "''a1''" "''/t/a.jpg''"]
  from th have 1: "cleanupTicker (NewTempStorage ''/t'' 20) = 1 * Minute"
    by simp
  from th have 2: "\<not> cleanupTicker (NewTempStorage ''/t'' 20) < ttl (NewTempStorage ''/t'' 20)"
    by (simp add: m)
  from th have 3: "files (fst (fst (cleanup (ex_store, ex_locked_fs) 30)))
              = [(''b2'', ex_tf ''b2'' ''/t/b.jpg'' [] 40 20 1)]"
    by (simp add: fl)
  from th have 4: "map_of (files (fst (fst (cleanup (ex_store, ex_locked_fs) 30)))) ''a1'' = None"
    by (simp add: a1 ex fl)
  from th have 5: "contents (snd (fst (cleanup (ex_store, ex_locked_fs) 30))) ''/t/a.jpg'' = None"
    by (simp add: tg lk)
  from th have "set (snd (cleanup (ex_store, ex_locked_fs) 30))
      = set (filter (\<lambda>r. contents ex_locked_fs r \<noteq> None \<and> r \<in> denied ex_locked_fs)
               (sweep_targets 30 ex_store))"
    by (simp only: set_filter)
  then have 8: "set (snd (cleanup (ex_store, ex_locked_fs) 30)) = {''/t/a.orig''}"
    by (simp only: tg flt) simp
  from sweep_fixed_interval [OF wf, of "''/t''" 20 ex_locked_fs 30 "''a1''" "''/t/a.orig''"]
  have 6: "contents (snd (fst (cleanup (ex_store, ex_locked_fs) 30))) ''/t/a.orig'' = Some ''xy''"
    by (simp add: tg lk)
  from sweep_fixed_interval [OF wf, of "''/t''" 20 ex_locked_fs 30 "''a1''" "''/t/b.jpg''"]
  have 7: "contents (snd (fst (cleanup (ex_store, ex_locked_fs) 30))) ''/t/b.jpg'' = Some ''b''"
    by (simp add: tg lk)
  from sweep_fixed_interval [OF wf, of "''/t''" 20 ex_empty_fs 30 "''a1''" "''/t/a.jpg''"]
  have 9: "set (snd (cleanup (ex_store, ex_empty_fs) 30)) = {}"
    by (simp add: em)
  from sweep_fixed_interval [OF wf, of "''/t''" 20 ex_fs 5 "''a1''" "''/t/a.jpg''"]
  have 10: "files (fst (fst (cleanup (ex_store, ex_fs) 5))) = files ex_store"
    and 11: "contents (snd (fst (cleanup (ex_store, ex_fs) 5))) ''/t/a.jpg'' = Some ''xyz''"
    and 12: "set (snd (cleanup (ex_store, ex_fs) 5)) = {}"
    by (simp_all add: fl5 tg5 c5)
  from 1 2 3 4 5 6 7 8 9 10 11 12 show ?thesis by simp
qed







section \<open>Properties of the downloader\<close>

subsection \<open>Strings\<close>

lemma lower_byte_not_upper: "lower_byte c \<notin> set ''ABCDEFGHIJKLMNOPQRSTUVWXYZ''"
  unfolding lower_byte_def by (simp split: option.splits)

lemma lower_no_upper: "set (map lower_byte s) \<inter> set ''ABCDEFGHIJKLMNOPQRSTUVWXYZ'' = {}"
  using lower_byte_not_upper by (auto simp del: set_simps)

lemma ToLower_ascii: "list_all ascii_byte s \<Longrightarrow> ToLower U s = map lower_byte s"
  by (simp add: ToLower_def)

lemma sublist_needs_chars: "sublist q s \<Longrightarrow> set q \<subseteq> set s"
  by (auto simp add: sublist_def)

text \<open>
  A lowered message holds no capital \<open>E\<close>, provided that the mapping of package
  \<open>unicode\<close> yields none (it maps to lower case).
\<close>

lemma EOF_pattern_never_matches:
  assumes "\<And>t. CHR ''E'' \<notin> set (U t)"
  shows "\<not> Contains (ToLower U s) ''EOF''"
proof
  assume "Contains (ToLower U s) ''EOF''"
  then have "set ''EOF'' \<subseteq> set (ToLower U s)"
    unfolding Contains_def by (rule sublist_needs_chars)
  then have e: "CHR ''E'' \<in> set (ToLower U s)" by simp
  show False
  proof (cases "list_all ascii_byte s")
    case True
    with e have "CHR ''E'' \<in> set (map lower_byte s)"
      by (simp only: ToLower_ascii)
    moreover have "CHR ''E'' \<in> set ''ABCDEFGHIJKLMNOPQRSTUVWXYZ''" by simp
    ultimately show False using lower_no_upper [of s] by blast
  next
    case False
    with e assms [of s] show False by (simp add: ToLower_def)
  qed
qed

lemma digits_chars: "set (digits n) \<subseteq> set ''0123456789''"
proof (induction n rule: digits.induct)
  case (1 n)
  have a: "n mod 10 < 10" by simp
  have b: "\<And>k. k < 10 \<Longrightarrow> ''0123456789'' ! k \<in> set ''0123456789''"
    by (rule nth_mem) simp
  show ?case
  proof (cases "n < 10")
    case True
    then show ?thesis using b [of n] by (subst digits.simps) simp
  next
    case False
    then show ?thesis using 1 b [OF a] by (subst digits.simps) simp
  qed
qed

lemma digits_nonempty: "digits n \<noteq> []"
  by (subst digits.simps) simp

lemma set_Cons_mono: "set xs \<subseteq> set ys \<Longrightarrow> set (c # xs) \<subseteq> set (c # ys)"
  by auto

lemma set_Cons_weaken: "set xs \<subseteq> set ys \<Longrightarrow> set xs \<subseteq> set (c # ys)"
  by auto

lemma Itoa_chars: "set (Itoa i) \<subseteq> set ''-0123456789''"
proof (cases "i < 0")
  case True
  have "set (CHR ''-'' # digits (nat (- i))) \<subseteq> set (CHR ''-'' # ''0123456789'')"
    using digits_chars by (rule set_Cons_mono)
  with True show ?thesis by (simp only: Itoa_def if_True)
next
  case False
  have "set (digits (nat i)) \<subseteq> set (CHR ''-'' # ''0123456789'')"
    using digits_chars by (rule set_Cons_weaken)
  with False show ?thesis by (simp only: Itoa_def if_False)
qed

lemma Itoa_nonempty: "Itoa i \<noteq> []"
  by (simp add: Itoa_def digits_nonempty)

lemma lower_byte_other: "c \<notin> set ''ABCDEFGHIJKLMNOPQRSTUVWXYZ'' \<Longrightarrow> lower_byte c = c"
proof -
  assume "c \<notin> set ''ABCDEFGHIJKLMNOPQRSTUVWXYZ''"
  then have "map_of (zip ''ABCDEFGHIJKLMNOPQRSTUVWXYZ'' ''abcdefghijklmnopqrstuvwxyz'') c = None"
    by (subst map_of_zip_is_None) simp_all
  then show ?thesis by (simp only: lower_byte_def option.case)
qed

lemma numeric_not_upper: "set ''-0123456789'' \<inter> set ''ABCDEFGHIJKLMNOPQRSTUVWXYZ'' = {}"
  by simp

lemma lower_byte_numeric: "c \<in> set ''-0123456789'' \<Longrightarrow> lower_byte c = c"
  using numeric_not_upper by (intro lower_byte_other) blast

lemma lower_Itoa: "map lower_byte (Itoa i) = Itoa i"
  using Itoa_chars [of i] by (intro map_idI lower_byte_numeric) blast

lemma ascii_numeric: "c \<in> set ''-0123456789'' \<Longrightarrow> ascii_byte c"
  by (auto simp add: ascii_byte_def)

lemma ascii_Itoa: "list_all ascii_byte (Itoa i)"
  using Itoa_chars [of i] ascii_numeric by (simp only: list_all_iff) blast

text \<open>A pattern without digits cannot overlap a number inside a message.\<close>

lemma sublist_skip_foreign:
  assumes disj: "set q \<inter> set ds = {}" and ne: "ds \<noteq> []"
  shows "sublist q (a @ ds @ b) \<longleftrightarrow> sublist q a \<or> sublist q b"
proof
  assume "sublist q a \<or> sublist q b"
  then show "sublist q (a @ ds @ b)"
    by (auto simp add: sublist_append)
next
  assume s: "sublist q (a @ ds @ b)"
  have inside: "\<And>x. set x \<subseteq> set q \<Longrightarrow> set x \<subseteq> set ds \<Longrightarrow> x = []"
    using disj by (metis Int_absorb2 Int_empty_right inf.absorb_iff2 inf_assoc set_empty subset_empty)
  from s consider (l) "sublist q a" | (r) "sublist q (ds @ b)"
    | (m) q1 q2 where "q = q1 @ q2" "suffix q1 a" "prefix q2 (ds @ b)"
    by (auto simp add: sublist_append)
  then show "sublist q a \<or> sublist q b"
  proof cases
    case l
    then show ?thesis by simp
  next
    case r
    then consider (d) "sublist q ds" | (b) "sublist q b"
      | (m2) q1 q2 where "q = q1 @ q2" "suffix q1 ds" "prefix q2 b"
      by (auto simp add: sublist_append)
    then show ?thesis
    proof cases
      case d
      then have "set q \<subseteq> set ds" by (rule sublist_needs_chars)
      with inside [of q] have "q = []" by simp
      then show ?thesis by simp
    next
      case b
      then show ?thesis by simp
    next
      case m2
      from m2(2) have "set q1 \<subseteq> set ds" by (auto simp add: suffix_def)
      with inside [of q1] m2(1) have "q1 = []" by simp
      with m2 show ?thesis by auto
    qed
  next
    case m
    from m(3) consider (p) "prefix q2 ds" | (x) q3 where "q2 = ds @ q3"
      by (auto simp add: prefix_append)
    then show ?thesis
    proof cases
      case p
      then have "set q2 \<subseteq> set ds" by (auto simp add: prefix_def)
      with inside [of q2] m(1) have "q2 = []" by simp
      with m show ?thesis by auto
    next
      case x
      with m(1) have "set ds \<subseteq> set q" by auto
      with disj ne show ?thesis by (cases ds) auto
    qed
  qed
qed

lemma sublist_skip_Itoa:
  assumes "set q \<inter> set ''-0123456789'' = {}"
  shows "sublist q (a @ Itoa i @ b) \<longleftrightarrow> sublist q a \<or> sublist q b"
proof -
  have "set q \<inter> set (Itoa i) = {}"
    using assms Itoa_chars [of i] by blast
  then show ?thesis
    using Itoa_nonempty by (rule sublist_skip_foreign)
qed

lemma sublist_skip_Itoa_end:
  assumes "set q \<inter> set ''-0123456789'' = {}"
  shows "sublist q (a @ Itoa i) \<longleftrightarrow> sublist q a \<or> q = []"
  using sublist_skip_Itoa [OF assms, of a i "[]"] by simp

subsection \<open>Which errors are retried\<close>

lemma retryable_patterns_wordy:
  "list_all (\<lambda>r. set r \<inter> set ''-0123456789'' = {}) retryableErrors"
  by (simp add: retryableErrors_def)

lemma matches_retryable_skip:
  "matches_retryable (a @ Itoa i @ b) \<longleftrightarrow> matches_retryable a \<or> matches_retryable b"
proof -
  have "\<And>r. r \<in> set retryableErrors \<Longrightarrow>
          Contains (a @ Itoa i @ b) r = (Contains a r \<or> Contains b r)"
    using retryable_patterns_wordy
    by (simp add: Contains_def list_all_iff sublist_skip_Itoa)
  then show ?thesis
    by (auto simp add: matches_retryable_def list_ex_iff)
qed

lemma matches_retryable_skip_end:
  "matches_retryable (a @ Itoa i) \<longleftrightarrow> matches_retryable a \<or> matches_retryable []"
  using matches_retryable_skip [of a i "[]"] by simp

lemma HTTPStatus_not_retryable: "\<not> isRetryableError U (Some (HTTPStatus c))"
proof -
  have l: "map lower_byte ''download failed: HTTP '' = ''download failed: http ''"
    by (simp add: lower_byte_def)
  have asc: "list_all ascii_byte (Error (HTTPStatus c))"
    by (simp add: ascii_Itoa ascii_byte_def)
  have a: "\<not> matches_retryable ''download failed: http ''"
    by (simp add: matches_retryable_def retryableErrors_def Contains_def sublist_code)
  have b: "\<not> matches_retryable []"
    by (simp add: matches_retryable_def retryableErrors_def Contains_def)
  have "map lower_byte (Error (HTTPStatus c)) = ''download failed: http '' @ Itoa c"
    by (simp only: Error.simps map_append l lower_Itoa)
  then have "ToLower U (Error (HTTPStatus c)) = ''download failed: http '' @ Itoa c"
    by (simp only: ToLower_ascii [OF asc])
  then have "isRetryableError U (Some (HTTPStatus c))
      = matches_retryable (''download failed: http '' @ Itoa c)"
    by (simp only: isRetryableError_def option.case)
  with a b show ?thesis
    by (simp only: matches_retryable_skip_end simp_thms)
qed

lemma FileTooLarge_not_retryable: "\<not> isRetryableError U (Some (FileTooLarge n m))"
proof -
  have l1: "map lower_byte ''file too large: '' = ''file too large: ''"
    by (simp add: lower_byte_def)
  have l2: "map lower_byte '' bytes (max: '' = '' bytes (max: ''"
    by (simp add: lower_byte_def)
  have l3: "map lower_byte '')'' = '')''"
    by (simp add: lower_byte_def)
  have asc: "list_all ascii_byte (Error (FileTooLarge n m))"
    by (simp add: ascii_Itoa ascii_byte_def)
  have a: "\<not> matches_retryable ''file too large: ''"
    by (simp add: matches_retryable_def retryableErrors_def Contains_def sublist_code)
  have b: "\<not> matches_retryable '' bytes (max: ''"
    by (simp add: matches_retryable_def retryableErrors_def Contains_def sublist_code)
  have c: "\<not> matches_retryable '')''"
    by (simp add: matches_retryable_def retryableErrors_def Contains_def sublist_code)
  have "map lower_byte (Error (FileTooLarge n m))
      = ''file too large: '' @ Itoa n @ ('' bytes (max: '' @ Itoa m @ '')'')"
    by (simp only: Error.simps map_append l1 l2 l3 lower_Itoa)
  then have "ToLower U (Error (FileTooLarge n m))
      = ''file too large: '' @ Itoa n @ ('' bytes (max: '' @ Itoa m @ '')'')"
    by (simp only: ToLower_ascii [OF asc])
  then have "isRetryableError U (Some (FileTooLarge n m))
      = matches_retryable (''file too large: '' @ Itoa n @ ('' bytes (max: '' @ Itoa m @ '')''))"
    by (simp only: isRetryableError_def option.case)
  with a b c show ?thesis
    by (simp only: matches_retryable_skip simp_thms)
qed

lemma scheme_errors_not_retryable:
  "\<not> isRetryableError U (Some EmptyURL) \<and> \<not> isRetryableError U (Some InvalidScheme)"
  by (simp add: isRetryableError_def matches_retryable_def retryableErrors_def Contains_def
      ToLower_def ascii_byte_def lower_byte_def sublist_code)

lemma Incomplete_retryable:
  "isRetryableError U (Some (IncompleteInterrupted e g)) \<and>
   isRetryableError U (Some (IncompletePartial e g))"
proof -
  have l: "map lower_byte ''incomplete download: expected '' = ''incomplete download: expected ''"
    by (simp add: lower_byte_def)
  have asc: "list_all ascii_byte (Error (IncompleteInterrupted e g))"
            "list_all ascii_byte (Error (IncompletePartial e g))"
    by (simp_all add: ascii_Itoa ascii_byte_def)
  have p: "prefix ''incomplete download'' ''incomplete download: expected ''"
    by simp
  have "sublist ''incomplete download'' (''incomplete download: expected '' @ x)" for x
    using p by (meson prefix_imp_sublist prefix_order.trans prefix_prefix prefix_order.refl)
  then have m: "matches_retryable (''incomplete download: expected '' @ x)" for x
    by (simp only: matches_retryable_def retryableErrors_def Contains_def list_ex_Cons_iff list_ex_Nil_iff simp_thms)
  have "isRetryableError U (Some (IncompleteInterrupted e g))"
    unfolding isRetryableError_def option.case ToLower_ascii [OF asc(1)]
    by (simp only: Error.simps map_append l m)
  moreover have "isRetryableError U (Some (IncompletePartial e g))"
    unfolding isRetryableError_def option.case ToLower_ascii [OF asc(2)]
    by (simp only: Error.simps map_append l m)
  ultimately show ?thesis by simp
qed

lemma unexpected_EOF_not_retryable:
  "\<not> isRetryableError U (Some (ReadFailed ErrUnexpectedEOF)) \<and>
   \<not> isRetryableError U (Some (ReadFailed EOF)) \<and>
   \<not> isRetryableError U (Some (DoFailed ''unexpected EOF'')) \<and>
   \<not> isRetryableError U (Some (DoFailed ''EOF''))"
  by (simp add: isRetryableError_def matches_retryable_def retryableErrors_def Contains_def
      ToLower_def ascii_byte_def lower_byte_def sublist_code)

lemma network_errors_retryable:
  "isRetryableError U (Some (DoFailed ''read tcp: connection reset by peer'')) \<and>
   isRetryableError U (Some (DoFailed ''dial tcp: connection refused'')) \<and>
   isRetryableError U (Some (DoFailed ''context deadline exceeded'')) \<and>
   isRetryableError U (Some (ReadFailed (NetError ''i/o timeout'')))"
  by (simp add: isRetryableError_def matches_retryable_def retryableErrors_def Contains_def
      ToLower_def ascii_byte_def lower_byte_def sublist_code)

subsection \<open>The retry loop\<close>

lemma Download_loop_done:
  "3 < attempt \<Longrightarrow>
   Download_loop U d net url attempt lastErr made slept = (Inl (ExhaustedRetries lastErr), made, slept)"
  by (subst Download_loop.simps) simp

lemma Download_loop_step:
  "attempt \<le> 3 \<Longrightarrow>
   Download_loop U d net url attempt lastErr made slept =
     (case fst (downloadWithValidation U d url attempt (net attempt)) of
        Inr data \<Rightarrow> (Inr data, made + 1, slept)
      | Inl err \<Rightarrow>
          if \<not> isRetryableError U (Some err) then (Inl err, made + 1, slept)
          else Download_loop U d net url (attempt + 1) (Some err) (made + 1)
                 (if attempt < 3 then slept @ [attempt * Second] else slept))"
  by (subst Download_loop.simps) simp

lemma Download_loop_3:
  "Download_loop U d net url 3 lastErr made slept =
     (case fst (downloadWithValidation U d url 3 (net 3)) of
        Inr data \<Rightarrow> (Inr data, made + 1, slept)
      | Inl err \<Rightarrow>
          if \<not> isRetryableError U (Some err) then (Inl err, made + 1, slept)
          else (Inl (ExhaustedRetries (Some err)), made + 1, slept))"
  by (simp add: Download_loop_step Download_loop_done split: sum.splits)

lemma Download_loop_2:
  "Download_loop U d net url 2 lastErr made slept =
     (case fst (downloadWithValidation U d url 2 (net 2)) of
        Inr data \<Rightarrow> (Inr data, made + 1, slept)
      | Inl err \<Rightarrow>
          if \<not> isRetryableError U (Some err) then (Inl err, made + 1, slept)
          else Download_loop U d net url 3 (Some err) (made + 1) (slept @ [2 * Second]))"
  by (simp add: Download_loop_step split: sum.splits)

lemma Download_loop_1:
  "Download_loop U d net url 1 lastErr made slept =
     (case fst (downloadWithValidation U d url 1 (net 1)) of
        Inr data \<Rightarrow> (Inr data, made + 1, slept)
      | Inl err \<Rightarrow>
          if \<not> isRetryableError U (Some err) then (Inl err, made + 1, slept)
          else Download_loop U d net url 2 (Some err) (made + 1) (slept @ [1 * Second]))"
  by (simp add: Download_loop_step split: sum.splits)

lemma Download_valid:
  "valid_url url \<Longrightarrow> Download U d net url = Download_loop U d net url 1 None 0 []"
  by (auto simp add: Download_def valid_url_def simp del: list.simps)

lemma Download_invalid:
  "\<not> valid_url url \<Longrightarrow>
   Download U d net url = (Inl (if url = [] then EmptyURL else InvalidScheme), 0, [])"
  by (auto simp add: Download_def valid_url_def simp del: list.simps)

text \<open>Never excess than three attempts; the sleeps are one second, then two.\<close>

lemma Download_bounded:
  "fst (snd (Download U d net url)) \<le> 3 \<and>
   prefix (snd (snd (Download U d net url))) [1 * Second, 2 * Second]"
proof (cases "valid_url url")
  case False
  then show ?thesis by (simp add: Download_invalid)
next
  case True
  show ?thesis
    by (simp add: Download_valid [OF True] Download_loop_1 Download_loop_2 Download_loop_3
        split: sum.splits)
qed

text \<open>An error that is not classified as transient ends the download at once.\<close>

lemma Download_first_error_final:
  "valid_url url \<Longrightarrow> fst (downloadWithValidation U d url 1 (net 1)) = Inl err \<Longrightarrow>
   \<not> isRetryableError U (Some err) \<Longrightarrow> Download U d net url = (Inl err, 1, [])"
  by (simp add: Download_valid Download_loop_1)

lemma Download_structural_immediate:
  assumes "valid_url url"
      and "fst (downloadWithValidation U d url 1 (net 1)) = Inl err"
      and "err = HTTPStatus c \<or> err = FileTooLarge n m"
  shows "Download U d net url = (Inl err, 1, [])"
  using assms HTTPStatus_not_retryable FileTooLarge_not_retryable
  by (auto simp add: Download_valid Download_loop_1)

text \<open>Three transient failures: the last one comes back wrapped.\<close>

lemma Download_exhausted:
  assumes "valid_url url"
      and "fst (downloadWithValidation U d url 1 (net 1)) = Inl e1" "isRetryableError U (Some e1)"
      and "fst (downloadWithValidation U d url 2 (net 2)) = Inl e2" "isRetryableError U (Some e2)"
      and "fst (downloadWithValidation U d url 3 (net 3)) = Inl e3" "isRetryableError U (Some e3)"
  shows "Download U d net url = (Inl (ExhaustedRetries (Some e3)), 3, [1 * Second, 2 * Second])"
  using assms by (simp add: Download_valid Download_loop_1 Download_loop_2 Download_loop_3)

text \<open>A transient failure, then a success.\<close>

lemma Download_retry_success:
  assumes "valid_url url"
      and "fst (downloadWithValidation U d url 1 (net 1)) = Inl e1" "isRetryableError U (Some e1)"
      and "fst (downloadWithValidation U d url 2 (net 2)) = Inr data"
  shows "Download U d net url = (Inr data, 2, [1 * Second])"
  using assms by (simp add: Download_valid Download_loop_1 Download_loop_2)

subsection \<open>An unexpected end of file is not retried\<close>

text \<open>
  C2. \<open>Download\<close> makes at most three attempts with sleeps of one and two seconds
  (\<open>Download_bounded\<close>), returns an error that is not classified as transient at once
  (\<open>Download_first_error_final\<close>, \<open>Download_structural_immediate\<close>) and wraps the last
  transient error after three failures (\<open>Download_exhausted\<close>). But an unexpected end
  of file is not classified as transient: the pattern \<open>EOF\<close> is compared with the
  lower-cased message and can never match (\<open>EOF_pattern_never_matches\<close>). A response that
  declares 200 bytes, is too long for the pool and breaks off after 150 bytes fails with
  "read failed: unexpected EOF", and \<open>Download\<close> returns that error after a single
  attempt, without a retry.
\<close>

theorem Download_unexpected_EOF_not_retried:
  "\<not> isRetryableError U (Some (ReadFailed ErrUnexpectedEOF)) \<and>
   \<not> isRetryableError U (Some (DoFailed ''unexpected EOF'')) \<and>
   fst (downloadWithValidation U (NewDownloader 1000) ''http://h/a.mp3'' 1 ex_short_env)
     = Inl (ReadFailed ErrUnexpectedEOF) \<and>
   Download U (NewDownloader 1000) (\<lambda>attempt. ex_short_env) ''http://h/a.mp3''
     = (Inl (ReadFailed ErrUnexpectedEOF), 1, [])"
proof -
  have v: "valid_url ''http://h/a.mp3''"
    by (simp add: valid_url_def HasPrefix_def)
  have r: "fst (downloadWithValidation U (NewDownloader 1000) ''http://h/a.mp3'' 1 ex_short_env)
     = Inl (ReadFailed ErrUnexpectedEOF)"
    by (simp add: downloadWithValidation_def ex_short_env_def NewDownloader_def read_body_def
        Body_def int64_wrap_def io_ReadAll_Limit_def)
  have n: "\<not> isRetryableError U (Some (ReadFailed ErrUnexpectedEOF))"
    using unexpected_EOF_not_retryable by simp
  have "Download U (NewDownloader 1000) (\<lambda>attempt. ex_short_env) ''http://h/a.mp3''
     = (Inl (ReadFailed ErrUnexpectedEOF), 1, [])"
    using v r n by (rule Download_first_error_final)
  with r n unexpected_EOF_not_retryable show ?thesis by simp
qed

subsection \<open>One attempt\<close>


lemma int64_wrap_overflow: "int64_wrap (9223372036854775807 + 1) = - 9223372036854775808"
  by (simp add: int64_wrap_def)




lemma Body_undeclared:
  "ContentLength resp < 0 \<Longrightarrow>
   Body resp = \<lparr>avail = sent (Wire resp), ending = closing (Wire resp)\<rparr>"
  by (simp add: Body_def)









text \<open>
  With the largest \<open>maxSize\<close> there is, \<open>maxSize + 1\<close> wraps around to a negative
  limit: the limited reader delivers nothing, and the download is refused as empty.
\<close>

lemma largest_maxSize_reads_nothing:
  "downloadWithValidation U \<lparr>maxSize = 9223372036854775807\<rparr> url a
     \<lparr>Allocated = 0,
      reply = Response \<lparr>StatusCode = 200, ContentLength = - 1,
                         Wire = \<lparr>sent = payload, closing = EOF\<rparr>\<rparr>\<rparr>
     = (Inl EmptyFile, 0)"
  by (simp add: downloadWithValidation_def read_body_def Body_def int64_wrap_def
      io_ReadAll_Limit_def check_data_def)





section \<open>Properties of the processing pipeline\<close>

lemma ex_download:
  "fst (Download U (NewDownloader 1000) (network ex_request) ''http://h/a.png'') = Inr ex_jpeg"
proof -
  have v: "valid_url ''http://h/a.png''"
    by (simp add: valid_url_def HasPrefix_def)
  have nv: "\<not> isVideoURL U ''http://h/a.png''"
    by (simp add: isVideoURL_def HasSuffix_def ToLower_def ascii_byte_def lower_byte_def
        suffix_to_prefix)
  have l: "length ex_jpeg = 100"
    by (simp add: ex_jpeg_def)
  have "fst (downloadWithValidation U (NewDownloader 1000) ''http://h/a.png'' 1 (network ex_request 1))
      = Inr ex_jpeg"
    using nv l
    by (simp add: downloadWithValidation_def ex_request_def NewDownloader_def read_body_def
        Body_def int64_wrap_def io_ReadAll_Limit_def check_data_def)
  then show ?thesis
    by (simp add: Download_valid [OF v] Download_loop_1)
qed

lemma ex_detect: "detectMediaTypeAndFormatFromURL U ''http://h/a.png'' = (''image'', ''png'')"
  by (simp add: detectMediaTypeAndFormatFromURL_def HasSuffix_def ToLower_def ascii_byte_def
      lower_byte_def suffix_to_prefix)

lemma ex_paths:
  "GenerateTempPath (NewTempStorage ''/t'' 0) ''aaaaaaaaaaaa0000'' ''image'' @ ''.original''
     = ''/t/aaaaaaaaaaaa.jpg.original''"
  "GenerateTempPathWithFormat U (NewTempStorage ''/t'' 0) ''bbbbbbbbbbbb0000'' ''image'' ''png''
     = ''/t/bbbbbbbbbbbb.png''"
  by (simp_all add: GenerateTempPath_def GenerateTempPathWithFormat_def Join_def Clean_def
      NewTempStorage_def GetFileExtension_def getExtensionForFormat_def HasPrefix_def
      ToLower_def ascii_byte_def lower_byte_def)

text \<open>\<open>filepath.Join\<close> cleans the path it builds.\<close>

lemma Join_cleans:
  "Join ''/t'' ''x.jpg'' = ''/t/x.jpg''"
  "Join ''/t/'' ''x.jpg'' = ''/t/x.jpg''"
  "Join [] ''x.jpg'' = ''x.jpg''"
  "Join ''./a'' ''x.jpg'' = ''a/x.jpg''"
  "Join ''a//b/../c'' ''x.jpg'' = ''a/c/x.jpg''"
  "Join ''..'' ''x.jpg'' = ''../x.jpg''"
  by (simp_all add: Join_def Clean_def)

lemma ex_adjust: "adjustOutputPath ''/t/bbbbbbbbbbbb.png'' (detectFormat ex_jpeg) = ''/t/bbbbbbbbbbbb.jpg''"
proof -
  have "detectFormat ex_jpeg = ''jpeg''"
    by (simp add: detectFormat_def ex_jpeg_def)
  then show ?thesis
    by (simp add: adjustOutputPath_def filepath_Ext_def TrimSuffix_def HasSuffix_def
        suffix_to_prefix)
qed

text \<open>
  C3. A failure of the download, of the save of the original bytes, of the conversion or
  of the store leaves the disk and the store as they were when no write breaks off half-way
  and the conversion writes to the output path it is given
  (\<open>Process_failure_restores_disk\<close>, below). But the image converter writes to the path
  adjusted to the format it detects in the bytes. For a URL that ends in \<open>.png\<close> and delivers JPEG bytes, the conversion
  succeeds and writes \<open>bbbbbbbbbbbb.jpg\<close>; the handler looks for \<open>bbbbbbbbbbbb.png\<close>,
  answers 500 "Output file was not created" and removes the original file only. The
  converted file stays on the disk, and no entry of the store leads to it.
\<close>

theorem Process_orphans_converted_image:
  "fst (Process U ex_handler ex_request (NewTempStorage ''/t'' 0, ex_empty_fs))
     = (500, failure ''Output file was not created'') \<and>
   contents (snd (snd (Process U ex_handler ex_request (NewTempStorage ''/t'' 0, ex_empty_fs))))
     ''/t/bbbbbbbbbbbb.jpg'' = Some ''JPEG'' \<and>
   contents (snd (snd (Process U ex_handler ex_request (NewTempStorage ''/t'' 0, ex_empty_fs))))
     ''/t/aaaaaaaaaaaa.jpg.original'' = None \<and>
   files (fst (snd (Process U ex_handler ex_request (NewTempStorage ''/t'' 0, ex_empty_fs)))) = []"
proof -
  let ?fs1 = "\<lparr>contents = [''/t/aaaaaaaaaaaa.jpg.original'' \<mapsto> ex_jpeg], denied = {},
               breaks_at = Map.empty\<rparr>"
  let ?fs2 = "\<lparr>contents = [''/t/aaaaaaaaaaaa.jpg.original'' \<mapsto> ex_jpeg,
                            ''/t/bbbbbbbbbbbb.jpg'' \<mapsto> ''JPEG''], denied = {},
               breaks_at = Map.empty\<rparr>"
  have ne: "ex_jpeg \<noteq> []"
    by (simp add: ex_jpeg_def)
  have w: "os_WriteFile ex_empty_fs ''/t/aaaaaaaaaaaa.jpg.original'' ex_jpeg = (None, ?fs1)"
    by (simp add: os_WriteFile_def ex_empty_fs_def)
  have c: "convert ?fs1 (FfmpegOut ''JPEG'') ''image'' ex_jpeg ''/t/bbbbbbbbbbbb.png'' ''png''
             = Some (None, ?fs2)"
    using ne
    by (simp add: convert_def Image_ConvertWithScriptTechniques_def ex_adjust run_and_write_def
        os_WriteFile_def)
  have v: "verify_and_store U ex_handler ex_request (NewTempStorage ''/t'' 0) ?fs2 ''image'' ''png''
             ''/t/aaaaaaaaaaaa.jpg.original'' ''/t/bbbbbbbbbbbb.png''
           = ((500, failure ''Output file was not created''),
              (NewTempStorage ''/t'' 0, snd (os_Remove ?fs2 ''/t/aaaaaaaaaaaa.jpg.original'')))"
    by (simp add: verify_and_store_def os_Stat_def os_IsNotExist_def)
  have p: "Process U ex_handler ex_request (NewTempStorage ''/t'' 0, ex_empty_fs)
           = ((500, failure ''Output file was not created''),
              (NewTempStorage ''/t'' 0, snd (os_Remove ?fs2 ''/t/aaaaaaaaaaaa.jpg.original'')))"
    unfolding Process_def
    by (simp add: ex_detect ex_download ex_paths w c v Let_def
        ex_handler_def [THEN arg_cong, of downloader]
        ex_request_def [THEN arg_cong, of requestBody] ex_request_def [THEN arg_cong, of originalId]
        ex_request_def [THEN arg_cong, of outputId] ex_request_def [THEN arg_cong, of ffmpeg])
  show ?thesis
    unfolding p by (simp add: os_Remove_def NewTempStorage_def)
qed

text \<open>
  The outcomes of a write: refused, broken off (the file is left with the bytes written so
  far), or done.
\<close>

lemma os_WriteFile_cases:
  "os_WriteFile fs p d = (e, fs') \<Longrightarrow>
   (e = Some EACCES \<and> fs' = fs \<and> p \<in> denied fs) \<or>
   (e = Some ENOSPC \<and> p \<notin> denied fs \<and>
    (\<exists>k. breaks_at fs p = Some k \<and> k < length d \<and>
         fs' = fs\<lparr>contents := (contents fs)(p \<mapsto> take k d)\<rparr>)) \<or>
   (e = None \<and> fs' = fs\<lparr>contents := (contents fs)(p \<mapsto> d)\<rparr> \<and> p \<notin> denied fs)"
  by (auto simp add: os_WriteFile_def split: if_splits option.splits)

lemma os_WriteFile_whole:
  "breaks_at fs p = None \<Longrightarrow> os_WriteFile fs p d = (e, fs') \<Longrightarrow>
   (e = Some EACCES \<and> fs' = fs \<and> p \<in> denied fs) \<or>
   (e = None \<and> fs' = fs\<lparr>contents := (contents fs)(p \<mapsto> d)\<rparr> \<and> p \<notin> denied fs)"
  by (auto simp add: os_WriteFile_def split: if_splits)

lemma os_Remove_written:
  "p \<notin> denied fs \<Longrightarrow> contents fs p = None \<Longrightarrow>
   snd (os_Remove (fs\<lparr>contents := (contents fs)(p \<mapsto> d)\<rparr>) p) = fs"
  by (simp add: os_Remove_def fun_upd_idem)

lemma run_and_write_cases:
  "breaks_at fs path = None \<Longrightarrow> run_and_write fs ff path = (e, fs') \<Longrightarrow>
   (e \<noteq> None \<and> fs' = fs) \<or>
   (e = None \<and> path \<notin> denied fs \<and>
    (\<exists>out. fs' = fs\<lparr>contents := (contents fs)(path \<mapsto> out)\<rparr>))"
  by (auto simp add: run_and_write_def os_WriteFile_def split: ffmpeg_run.splits if_splits)

lemma Video_convert_cases:
  assumes r: "Video_ConvertWithScriptTechniques fs ff inputData outputPath = (e, fs')"
      and fresh: "contents fs (outputPath @ ''.input.mp4'') = None"
      and whole: "breaks_at fs (outputPath @ ''.input.mp4'') = None" "breaks_at fs outputPath = None"
  shows "(e \<noteq> None \<and> fs' = fs) \<or>
         (e = None \<and> outputPath \<notin> denied fs \<and>
          (\<exists>out. fs' = fs\<lparr>contents := (contents fs)(outputPath \<mapsto> out)\<rparr>))"
proof (cases "length inputData = 0 \<or> validateMP4Integrity inputData \<noteq> None")
  case True
  with r show ?thesis
    by (auto simp add: Video_ConvertWithScriptTechniques_def split: if_splits option.splits)
next
  case False
  let ?t = "outputPath @ ''.input.mp4''"
  obtain we fs1 where w: "os_WriteFile fs ?t inputData = (we, fs1)"
    by (cases "os_WriteFile fs ?t inputData")
  from os_WriteFile_whole [OF whole(1) w] show ?thesis
  proof
    assume "we = Some EACCES \<and> fs1 = fs \<and> ?t \<in> denied fs"
    with r False w show ?thesis
      by (auto simp add: Video_ConvertWithScriptTechniques_def)
  next
    assume ok: "we = None \<and> fs1 = fs\<lparr>contents := (contents fs)(?t \<mapsto> inputData)\<rparr> \<and> ?t \<notin> denied fs"
    obtain re fs2 where rw: "run_and_write fs1 ff outputPath = (re, fs2)"
      by (cases "run_and_write fs1 ff outputPath")
    from r False w ok rw have e: "e = re" and f: "fs' = snd (os_Remove fs2 ?t)"
      by (auto simp add: Video_ConvertWithScriptTechniques_def)
    have neq: "outputPath \<noteq> ?t" by simp
    have whole1: "breaks_at fs1 outputPath = None"
      using ok whole(2) by simp
    from run_and_write_cases [OF whole1 rw] show ?thesis
    proof
      assume "re \<noteq> None \<and> fs2 = fs1"
      with e f ok fresh show ?thesis
        by (simp add: os_Remove_written)
    next
      assume a: "re = None \<and> outputPath \<notin> denied fs1 \<and>
          (\<exists>out. fs2 = fs1\<lparr>contents := (contents fs1)(outputPath \<mapsto> out)\<rparr>)"
      then obtain out where o: "fs2 = fs1\<lparr>contents := (contents fs1)(outputPath \<mapsto> out)\<rparr>"
        by blast
      have idem: "((contents fs)(outputPath \<mapsto> out))(?t := None) = (contents fs)(outputPath \<mapsto> out)"
        using fresh neq by (simp add: fun_upd_idem)
      have tw: "(contents fs)(?t \<mapsto> inputData, outputPath \<mapsto> out)
                  = (contents fs)(outputPath \<mapsto> out, ?t \<mapsto> inputData)"
        using neq by (simp add: fun_upd_twist)
      have "fs' = fs\<lparr>contents := (contents fs)(outputPath \<mapsto> out)\<rparr>"
        using f o ok
        by (simp add: os_Remove_def tw idem)
      with a e ok show ?thesis by auto
    qed
  qed
qed

lemma convert_cases:
  assumes c: "convert fs ff mediaType inputData outputPath inputFormat = Some (e, fs')"
      and fresh: "contents fs (outputPath @ ''.input.mp4'') = None"
      and whole: "breaks_at fs (outputPath @ ''.input.mp4'') = None" "breaks_at fs outputPath = None"
      and same: "mediaType = ''image'' \<longrightarrow>
                   adjustOutputPath outputPath (detectFormat inputData) = outputPath"
  shows "(e \<noteq> None \<and> fs' = fs) \<or>
         (e = None \<and> outputPath \<notin> denied fs \<and>
          (\<exists>out. fs' = fs\<lparr>contents := (contents fs)(outputPath \<mapsto> out)\<rparr>))"
proof -
  consider (a) "mediaType = ''audio''" | (i) "mediaType = ''image''" | (v) "mediaType = ''video''"
    using c by (auto simp add: convert_def split: if_splits)
  then show ?thesis
  proof cases
    case a
    with c have "Audio_ConvertWithScriptTechniques fs ff inputData outputPath inputFormat = (e, fs')"
      by (simp add: convert_def)
    then show ?thesis
      using run_and_write_cases [OF whole(2), of ff e fs']
      by (auto simp add: Audio_ConvertWithScriptTechniques_def split: if_splits)
  next
    case i
    with c have "Image_ConvertWithScriptTechniques fs ff inputData outputPath = (e, fs')"
      by (simp add: convert_def)
    then show ?thesis
      using run_and_write_cases [OF whole(2), of ff e fs'] same i
      by (auto simp add: Image_ConvertWithScriptTechniques_def Let_def split: if_splits)
  next
    case v
    with c have "Video_ConvertWithScriptTechniques fs ff inputData outputPath = (e, fs')"
      by (simp add: convert_def)
    then show ?thesis using fresh whole by (rule Video_convert_cases)
  qed
qed

text \<open>
  A write of the original bytes that breaks off is answered with an error, and the file
  stays on the disk with the bytes written so far.
\<close>

lemma Process_keeps_broken_original:
  assumes body: "requestBody env = Some arquivo" and ne: "arquivo \<noteq> []"
      and det: "detectMediaTypeAndFormatFromURL U arquivo = (mediaType, inputFormat)"
      and m: "mediaType \<noteq> []"
      and dl: "fst (Download U (downloader h) (network env) arquivo) = Inr inputData"
      and op: "originalPath = GenerateTempPath (fst s) (originalId env) mediaType @ ''.original''"
      and free: "originalPath \<notin> denied (snd s)"
      and brk: "breaks_at (snd s) originalPath = Some k" "k < length inputData"
  shows "Process U h env s
           = ((500, failure ''Failed to save original file''),
              (fst s, (snd s)\<lparr>contents := (contents (snd s))(originalPath \<mapsto> take k inputData)\<rparr>))"
  using free brk
  by (simp add: Process_def body ne det m dl op [symmetric] os_WriteFile_def)

lemma detect_media_types:
  "fst (detectMediaTypeAndFormatFromURL U url) \<in> {''audio'', ''image'', ''video'', []}"
  by (simp add: detectMediaTypeAndFormatFromURL_def Let_def del: list.simps)

text \<open>
  When no write breaks off, the image converter writes where it is told to, and the paths
  drawn are new, a request that fails leaves the store and the disk as they were.
\<close>

lemma Process_failure_restores_disk:
  assumes body: "requestBody env = Some arquivo"
      and det: "detectMediaTypeAndFormatFromURL U arquivo = (mediaType, inputFormat)"
      and op: "originalPath = GenerateTempPath (fst s) (originalId env) mediaType @ ''.original''"
      and out: "outputPath = GenerateTempPathWithFormat U (fst s) (outputId env) mediaType inputFormat"
      and fresh: "contents (snd s) originalPath = None"
                 "contents (snd s) (outputPath @ ''.input.mp4'') = None"
      and dist: "originalPath \<noteq> outputPath" "originalPath \<noteq> outputPath @ ''.input.mp4''"
      and whole: "breaks_at (snd s) originalPath = None" "breaks_at (snd s) outputPath = None"
                 "breaks_at (snd s) (outputPath @ ''.input.mp4'') = None"
      and same: "\<And>inputData. mediaType = ''image'' \<Longrightarrow>
                   fst (Download U (downloader h) (network env) arquivo) = Inr inputData \<Longrightarrow>
                   adjustOutputPath outputPath (detectFormat inputData) = outputPath"
      and fail: "fst (fst (Process U h env s)) \<noteq> 200"
  shows "snd (Process U h env s) = s"
proof (cases "arquivo = [] \<or> mediaType = []")
  case True
  then show ?thesis
    by (auto simp add: Process_def body det)
next
  case False
  then have a: "arquivo \<noteq> []" and m: "mediaType \<noteq> []" by simp_all
  show ?thesis
  proof (cases "fst (Download U (downloader h) (network env) arquivo)")
    case (Inl err)
    with a m show ?thesis
      by (simp add: Process_def body det)
  next
    case (Inr inputData)
    obtain we fs1 where w: "os_WriteFile (snd s) originalPath inputData = (we, fs1)"
      by (cases "os_WriteFile (snd s) originalPath inputData")
    from os_WriteFile_whole [OF whole(1) w] show ?thesis
    proof
      assume "we = Some EACCES \<and> fs1 = snd s \<and> originalPath \<in> denied (snd s)"
      with a m Inr w show ?thesis
        by (simp add: Process_def body det op [symmetric])
    next
      assume ok: "we = None \<and>
          fs1 = (snd s)\<lparr>contents := (contents (snd s))(originalPath \<mapsto> inputData)\<rparr> \<and>
          originalPath \<notin> denied (snd s)"
      have fresh1: "contents fs1 (outputPath @ ''.input.mp4'') = None"
        using ok fresh(2) dist(2) by simp
      have whole1: "breaks_at fs1 (outputPath @ ''.input.mp4'') = None"
                   "breaks_at fs1 outputPath = None"
        using ok whole by simp_all
      have restored: "snd (os_Remove fs1 originalPath) = snd s"
        using ok fresh(1) by (simp add: os_Remove_written)
      from detect_media_types [of U arquivo] det m
      have mt: "mediaType = ''audio'' \<or> mediaType = ''image'' \<or> mediaType = ''video''"
        by auto
      then obtain e fs2 where
        c: "convert fs1 (ffmpeg env) mediaType inputData outputPath inputFormat = Some (e, fs2)"
        by (cases "convert fs1 (ffmpeg env) mediaType inputData outputPath inputFormat")
           (auto simp add: convert_def)
      have sm: "mediaType = ''image'' \<longrightarrow>
                  adjustOutputPath outputPath (detectFormat inputData) = outputPath"
        using same Inr by simp
      have P: "Process U h env s =
           (case e of
              Some err \<Rightarrow> ((500, failure (''Processing failed: '' @ conv_message err)),
                           (fst s, snd (os_Remove fs2 originalPath)))
            | None \<Rightarrow> verify_and_store U h env (fst s) fs2 mediaType inputFormat
                        originalPath outputPath)"
        using a m Inr w ok c
        by (simp add: Process_def body det op [symmetric] out [symmetric] split: option.splits)
      from convert_cases [OF c fresh1 whole1 sm] show ?thesis
      proof
        assume "e \<noteq> None \<and> fs2 = fs1"
        with P restored show ?thesis by auto
      next
        assume g: "e = None \<and> outputPath \<notin> denied fs1 \<and>
            (\<exists>out. fs2 = fs1\<lparr>contents := (contents fs1)(outputPath \<mapsto> out)\<rparr>)"
        then have "fst (fst (verify_and_store U h env (fst s) fs2 mediaType inputFormat
                        originalPath outputPath)) = 200"
          by (auto simp add: verify_and_store_def os_Stat_def Store_def Let_def)
        with P g fail show ?thesis by simp
      qed
    qed
  qed
qed

section \<open>Properties of the random parameters\<close>

lemma GenerateNonce_secure:
  "crypto_at env (drawn st) = Some randomBytes \<Longrightarrow>
   GenerateNonce lib env st
     = (make_nonce (now_at env (drawn st)) randomBytes, st\<lparr>drawn := drawn st + 1\<rparr>)"
  by (simp add: GenerateNonce_def)

lemma GenerateNonce_counts: "drawn (snd (GenerateNonce lib env st)) = drawn st + 1"
  by (simp add: GenerateNonce_def Let_def split_beta split: option.splits)

lemma GenerateNonce_fallback:
  "crypto_at env (drawn st) = None \<Longrightarrow>
   GenerateNonce lib env st
     = (make_nonce (now_at env (drawn st)) (fst (Read lib (global st) 16)),
        st\<lparr>drawn := drawn st + 1, global := snd (Read lib (global st) 16)\<rparr>)"
  by (simp add: GenerateNonce_def split_beta)

text \<open>
  C8, as stated, fails for the operation by level: \<open>AudioConverter.Convert\<close> generates
  no nonce and draws its parameters, the jitter of the bitrate among them, from the
  process-wide generator, so that they change with the state in which other operations
  have left that generator.
\<close>

theorem level_operation_counterexample:
  "fst (Audio_level_operation ex_lib ''abc'' ''basic'' \<lparr>drawn = 0, global = 0\<rparr>)
     \<noteq> fst (Audio_level_operation ex_lib ''abc'' ''basic'' \<lparr>drawn = 0, global = 1\<rparr>) \<and>
   bitrate (the (fst (Audio_level_operation ex_lib ''abc'' ''basic'' \<lparr>drawn = 0, global = 0\<rparr>)))
     = ''70k'' \<and>
   bitrate (the (fst (Audio_level_operation ex_lib ''abc'' ''basic'' \<lparr>drawn = 0, global = 1\<rparr>)))
     = ''71k'' \<and>
   drawn (snd (Audio_level_operation ex_lib ''abc'' ''basic'' \<lparr>drawn = 0, global = 0\<rparr>)) = 0 \<and>
   global (snd (Audio_level_operation ex_lib ''abc'' ''basic'' \<lparr>drawn = 0, global = 0\<rparr>)) = 3"
  by (simp add: Audio_level_operation_def getRandomizedParams_def ex_lib_def Itoa_def
      digits.simps)

text \<open>
  C8, amended. Each \<open>ConvertWithScriptTechniques\<close> (audio, image, video) that gets past
  its checks of the input generates exactly one nonce and, while \<open>crypto/rand\<close>
  delivers, leaves the process-wide generator untouched. Its parameters are computed from
  that nonce alone: the delay and the volume, or the crop and the gamma, from the first
  draws of a generator \<open>localRand\<close> newly seeded with the seed of the nonce and from the
  timestamp of the nonce; the position of the box from the timestamp; the changes of
  pixels from the draws of a second generator with the same seed; the identifier from the
  nonce string. A second run that generates an equal nonce, in whatever state, computes
  the same parameters. An operation that returns on its checks (empty input; for video
  also bytes that are not a sound MP4 file, or a temporary file that cannot be written)
  generates no nonce and draws nothing.
\<close>

theorem script_operations_use_own_nonce:
  assumes crypto: "crypto_at env (drawn st) = Some randomBytes"
      and nonce: "nonce = make_nonce (now_at env (drawn st)) randomBytes"
      and seeded: "localRand = NewSource lib (GetSeedForRand nonce)"
      and audio: "audioData \<noteq> []"
      and image: "imageData \<noteq> []"
      and video: "videoData \<noteq> []" "validateMP4Integrity videoData = None"
                 "fst (os_WriteFile fs (outputPath @ ''.input.mp4'') videoData) = None"
      and again: "crypto_at env' (drawn st') = Some randomBytes'"
                 "make_nonce (now_at env' (drawn st')) randomBytes' = nonce"
  shows "Audio_script_operation lib env audioData st
           = (Some \<lparr>delayMs = min 50 (1 + fst (Intn lib localRand 50)
                                       + go_rem (sint (Timestamp nonce)) 10),
                    volume = 0.99 + fst (Float64 lib (snd (Intn lib localRand 50))) * 0.02
                             + real_of_int (go_rem (sint (Timestamp nonce)) 100) / 100000,
                    audio_uid = ''uid:'' @ Nonce nonce\<rparr>,
              st\<lparr>drawn := drawn st + 1\<rparr>) \<and>
         Image_script_operation lib env imageData (Some (w, h)) st
           = (Some \<lparr>lsb = (if (detectFormat imageData = ''jpeg'' \<or>
                                detectFormat imageData = ''png'') \<and> 0 < w \<and> 0 < h
                            then draw_many lib localRand
                                   (3 * length (filter (\<lambda>c. fst c < w \<and> snd c < h)
                                      [(w div 2, h div 2), (w div 2 + 1, h div 2),
                                       (w div 2, h div 2 + 1)]))
                            else []),
                    image_cropPixels = crop_pixels (fst (Intn lib localRand 2)) (Timestamp nonce),
                    image_gamma = min 1.005
                      (0.995 + fst (Float64 lib (snd (Intn lib localRand 2))) * 0.010
                       + real_of_int (go_rem (sint (Timestamp nonce)) 1000) / 1000000),
                    image_uid = ''uid:'' @ Nonce nonce\<rparr>,
              st\<lparr>drawn := drawn st + 1\<rparr>) \<and>
         lsb (the (fst (Image_script_operation lib env imageData None st))) = [] \<and>
         Video_script_operation lib env fs videoData outputPath st
           = (Some \<lparr>video_cropPixels = crop_pixels (fst (Intn lib localRand 2)) (Timestamp nonce),
                    video_gamma = min 1.002
                      (0.998 + fst (Float64 lib (snd (Intn lib localRand 2))) * 0.004
                       + real_of_int (go_rem (sint (Timestamp nonce)) 1000) / 1000000),
                    boxX = go_rem (sint (Timestamp nonce)) 2,
                    boxY = go_rem (go_quot (sint (Timestamp nonce)) 10) 2,
                    video_uid = ''uid:'' @ Nonce nonce\<rparr>,
              st\<lparr>drawn := drawn st + 1\<rparr>) \<and>
         fst (Audio_script_operation lib env' audioData st')
           = fst (Audio_script_operation lib env audioData st) \<and>
         fst (Image_script_operation lib env' imageData decoded st')
           = fst (Image_script_operation lib env imageData decoded st) \<and>
         fst (Video_script_operation lib env' fs videoData outputPath st')
           = fst (Video_script_operation lib env fs videoData outputPath st) \<and>
         Audio_script_operation lib env [] st = (None, st) \<and>
         Image_script_operation lib env [] decoded st = (None, st) \<and>
         Video_script_operation lib env fs [] outputPath st = (None, st) \<and>
         (validateMP4Integrity broken \<noteq> None \<or>
          fst (os_WriteFile fs' (outputPath @ ''.input.mp4'') broken) \<noteq> None \<longrightarrow>
            Video_script_operation lib env fs' broken outputPath st = (None, st))"
proof -
  have n: "GenerateNonce lib env st = (nonce, st\<lparr>drawn := drawn st + 1\<rparr>)"
    using crypto nonce by (simp add: GenerateNonce_secure)
  have n': "GenerateNonce lib env' st' = (nonce, st'\<lparr>drawn := drawn st' + 1\<rparr>)"
    using again by (simp add: GenerateNonce_secure)
  have a: "Audio_script_operation lib env audioData st
           = (Some \<lparr>delayMs = min 50 (1 + fst (Intn lib localRand 50)
                                       + go_rem (sint (Timestamp nonce)) 10),
                    volume = 0.99 + fst (Float64 lib (snd (Intn lib localRand 50))) * 0.02
                             + real_of_int (go_rem (sint (Timestamp nonce)) 100) / 100000,
                    audio_uid = ''uid:'' @ Nonce nonce\<rparr>,
              st\<lparr>drawn := drawn st + 1\<rparr>)"
    using audio
    by (simp add: Audio_script_operation_def n audio_script_params_def seeded split_beta
        Let_def min_def)
  have i: "Image_script_operation lib env imageData (Some (w, h)) st
           = (Some \<lparr>lsb = (if (detectFormat imageData = ''jpeg'' \<or>
                                detectFormat imageData = ''png'') \<and> 0 < w \<and> 0 < h
                            then draw_many lib localRand
                                   (3 * length (filter (\<lambda>c. fst c < w \<and> snd c < h)
                                      [(w div 2, h div 2), (w div 2 + 1, h div 2),
                                       (w div 2, h div 2 + 1)]))
                            else []),
                    image_cropPixels = crop_pixels (fst (Intn lib localRand 2)) (Timestamp nonce),
                    image_gamma = min 1.005
                      (0.995 + fst (Float64 lib (snd (Intn lib localRand 2))) * 0.010
                       + real_of_int (go_rem (sint (Timestamp nonce)) 1000) / 1000000),
                    image_uid = ''uid:'' @ Nonce nonce\<rparr>,
              st\<lparr>drawn := drawn st + 1\<rparr>)"
    using image
    by (simp add: Image_script_operation_def n image_script_params_def lsb_choices_def seeded
        split_beta Let_def min_def)
  have i0: "lsb (the (fst (Image_script_operation lib env imageData None st))) = []"
    using image
    by (simp add: Image_script_operation_def n image_script_params_def split_beta Let_def)
  obtain fs1 where w: "os_WriteFile fs (outputPath @ ''.input.mp4'') videoData = (None, fs1)"
    using video(3) by (cases "os_WriteFile fs (outputPath @ ''.input.mp4'') videoData") simp
  have v: "Video_script_operation lib env fs videoData outputPath st
           = (Some \<lparr>video_cropPixels = crop_pixels (fst (Intn lib localRand 2)) (Timestamp nonce),
                    video_gamma = min 1.002
                      (0.998 + fst (Float64 lib (snd (Intn lib localRand 2))) * 0.004
                       + real_of_int (go_rem (sint (Timestamp nonce)) 1000) / 1000000),
                    boxX = go_rem (sint (Timestamp nonce)) 2,
                    boxY = go_rem (go_quot (sint (Timestamp nonce)) 10) 2,
                    video_uid = ''uid:'' @ Nonce nonce\<rparr>,
              st\<lparr>drawn := drawn st + 1\<rparr>)"
    using video(1,2)
    by (simp add: Video_script_operation_def w n video_script_params_def seeded split_beta
        Let_def min_def)
  have a': "fst (Audio_script_operation lib env' audioData st')
           = fst (Audio_script_operation lib env audioData st)"
    by (simp add: Audio_script_operation_def n n')
  have i': "fst (Image_script_operation lib env' imageData decoded st')
           = fst (Image_script_operation lib env imageData decoded st)"
    by (simp add: Image_script_operation_def n n')
  have v': "fst (Video_script_operation lib env' fs videoData outputPath st')
           = fst (Video_script_operation lib env fs videoData outputPath st)"
    by (simp add: Video_script_operation_def n n' split: option.splits prod.splits)
  have e: "Audio_script_operation lib env [] st = (None, st)"
      "Image_script_operation lib env [] decoded st = (None, st)"
      "Video_script_operation lib env fs [] outputPath st = (None, st)"
    by (simp_all add: Audio_script_operation_def Image_script_operation_def
        Video_script_operation_def)
  have b: "validateMP4Integrity broken \<noteq> None \<or>
          fst (os_WriteFile fs' (outputPath @ ''.input.mp4'') broken) \<noteq> None \<longrightarrow>
            Video_script_operation lib env fs' broken outputPath st = (None, st)"
    by (auto simp add: Video_script_operation_def split: option.splits prod.splits)
  from a i i0 v a' i' v' e b show ?thesis by blast
qed

theorem script_operations_use_own_nonce_witness:
  "Audio_script_operation ex_lib ex_entropy ''abc'' \<lparr>drawn = 0, global = 7\<rparr>
     = (Some \<lparr>delayMs = 8, volume = 0.99023,
              audio_uid = ''uid:1700000000000000123_01010101010101010101010101010101''\<rparr>,
        \<lparr>drawn = 1, global = 7\<rparr>) \<and>
   Image_script_operation ex_lib ex_entropy ex_jpeg (Some (50, 50)) \<lparr>drawn = 0, global = 7\<rparr>
     = (Some \<lparr>lsb = [0, 1, 0, 1, 0, 1, 0, 1, 0], image_cropPixels = 1, image_gamma = 0.995123,
              image_uid = ''uid:1700000000000000123_01010101010101010101010101010101''\<rparr>,
        \<lparr>drawn = 1, global = 7\<rparr>) \<and>
   Video_script_operation ex_lib ex_entropy ex_empty_fs ex_mp4 ''/t/o.mp4'' \<lparr>drawn = 0, global = 7\<rparr>
     = (Some \<lparr>video_cropPixels = 1, video_gamma = 0.998123, boxX = 1, boxY = 0,
              video_uid = ''uid:1700000000000000123_01010101010101010101010101010101''\<rparr>,
        \<lparr>drawn = 1, global = 7\<rparr>) \<and>
   fst (Audio_script_operation ex_lib ex_entropy ''abc'' \<lparr>drawn = 3, global = 8\<rparr>)
     = fst (Audio_script_operation ex_lib ex_entropy ''abc'' \<lparr>drawn = 0, global = 7\<rparr>) \<and>
   fst (Video_script_operation ex_lib ex_entropy ex_empty_fs ex_mp4 ''/t/o.mp4'' \<lparr>drawn = 3, global = 8\<rparr>)
     = fst (Video_script_operation ex_lib ex_entropy ex_empty_fs ex_mp4 ''/t/o.mp4'' \<lparr>drawn = 0, global = 7\<rparr>) \<and>
   Audio_script_operation ex_lib ex_entropy [] \<lparr>drawn = 0, global = 7\<rparr>
     = (None, \<lparr>drawn = 0, global = 7\<rparr>) \<and>
   Video_script_operation ex_lib ex_entropy ex_empty_fs ''abc'' ''/t/o.mp4'' \<lparr>drawn = 0, global = 7\<rparr>
     = (None, \<lparr>drawn = 0, global = 7\<rparr>)"
proof -
  let ?st = "\<lparr>drawn = 0, global = 7::nat\<rparr>"
  let ?st' = "\<lparr>drawn = 3, global = 8::nat\<rparr>"
  let ?bytes = "replicate 16 (CHR 0x01)"
  let ?n = "\<lparr>Timestamp = 1700000000000000123, Random = ''01010101010101010101010101010101'',
             Nonce = ''1700000000000000123_01010101010101010101010101010101''\<rparr>"
  have crypto: "crypto_at ex_entropy (drawn ?st) = Some ?bytes"
    and crypto': "crypto_at ex_entropy (drawn ?st') = Some ?bytes"
    by (simp_all add: ex_entropy_def)
  have enc: "EncodeToString ?bytes = ''01010101010101010101010101010101''"
    by code_simp
  have dec: "Itoa 1700000000000000123 = ''1700000000000000123''"
    by (simp add: Itoa_def digits.simps)
  have nonce: "?n = make_nonce (now_at ex_entropy (drawn ?st)) ?bytes"
    and nonce': "make_nonce (now_at ex_entropy (drawn ?st')) ?bytes = ?n"
    by (simp_all add: ex_entropy_def make_nonce_def enc dec)
  have seed: "GetSeedForRand ?n = 144639593304412504"
    by code_simp
  have seeded: "(144639593304412504::nat) = NewSource ex_lib (GetSeedForRand ?n)"
    by (simp add: seed ex_lib_def)
  have audio: "''abc'' \<noteq> []" by simp
  have image: "ex_jpeg \<noteq> []" by (simp add: ex_jpeg_def)
  have video: "ex_mp4 \<noteq> []" by (simp add: ex_mp4_def)
  have sound: "validateMP4Integrity ex_mp4 = None"
    by code_simp
  have written: "fst (os_WriteFile ex_empty_fs (''/t/o.mp4'' @ ''.input.mp4'') ex_mp4) = None"
    by (simp add: os_WriteFile_def ex_empty_fs_def)
  have broken: "validateMP4Integrity ''abc'' \<noteq> None"
    by (simp add: validateMP4Integrity_def)
  have jpeg: "detectFormat ex_jpeg = ''jpeg''"
    by (simp add: detectFormat_def ex_jpeg_def)
  have ts: "sint (1700000000000000123 :: int64) = 1700000000000000123"
    by simp
  note th = script_operations_use_own_nonce
      [OF crypto nonce seeded audio image video sound written crypto' nonce',
       of 50 50 "Some (50, 50)" "''abc''" ex_empty_fs]
  from th have 1: "Audio_script_operation ex_lib ex_entropy ''abc'' ?st
     = (Some \<lparr>delayMs = 8, volume = 0.99023,
              audio_uid = ''uid:1700000000000000123_01010101010101010101010101010101''\<rparr>,
        \<lparr>drawn = 1, global = 7\<rparr>)"
    by (simp add: ex_lib_def go_rem_def ts)
  have cnt: "3 * length (filter (\<lambda>c. fst c < 50 \<and> snd c < 50)
                 [(50 div 2 :: nat, 50 div 2 :: nat), (50 div 2 + 1, 50 div 2),
                  (50 div 2, 50 div 2 + 1)])
             = Suc (Suc (Suc (Suc (Suc (Suc (Suc (Suc (Suc (0::nat)))))))))"
    by simp
  have draws: "draw_many ex_lib 144639593304412504 (Suc (Suc (Suc (Suc (Suc (Suc (Suc (Suc (Suc 0)))))))))
             = [0, 1, 0, 1, 0, 1, 0, 1, 0]"
    by (simp add: ex_lib_def)
  from th [unfolded cnt draws] have 2:
    "Image_script_operation ex_lib ex_entropy ex_jpeg (Some (50, 50)) ?st
     = (Some \<lparr>lsb = [0, 1, 0, 1, 0, 1, 0, 1, 0], image_cropPixels = 1, image_gamma = 0.995123,
              image_uid = ''uid:1700000000000000123_01010101010101010101010101010101''\<rparr>,
        \<lparr>drawn = 1, global = 7\<rparr>)"
    by (simp add: ex_lib_def go_rem_def ts jpeg crop_pixels_def)
  from th have 3: "Video_script_operation ex_lib ex_entropy ex_empty_fs ex_mp4 ''/t/o.mp4'' ?st
     = (Some \<lparr>video_cropPixels = 1, video_gamma = 0.998123, boxX = 1, boxY = 0,
              video_uid = ''uid:1700000000000000123_01010101010101010101010101010101''\<rparr>,
        \<lparr>drawn = 1, global = 7\<rparr>)"
    by (simp add: ex_lib_def go_rem_def go_quot_def ts crop_pixels_def)
  from th have 4: "fst (Audio_script_operation ex_lib ex_entropy ''abc'' ?st')
     = fst (Audio_script_operation ex_lib ex_entropy ''abc'' ?st)"
    by blast
  from th have 5: "fst (Video_script_operation ex_lib ex_entropy ex_empty_fs ex_mp4 ''/t/o.mp4'' ?st')
     = fst (Video_script_operation ex_lib ex_entropy ex_empty_fs ex_mp4 ''/t/o.mp4'' ?st)"
    by blast
  from th have 6: "Audio_script_operation ex_lib ex_entropy [] ?st = (None, ?st)"
    by blast
  from th broken have 7: "Video_script_operation ex_lib ex_entropy ex_empty_fs ''abc'' ''/t/o.mp4'' ?st
     = (None, ?st)"
    by blast
  from 1 2 3 4 5 6 7 show ?thesis by blast
qed

end
